theory Spec2Isabelle
  imports Complex_Main
begin

section \<open>Data model\<close>

text \<open>
  The marketplace keeps five tables: profiles, offers, offer details, orders and reviews.
  The model classes live in \<^verbatim>\<open>sales_app/models.py\<close> and \<^verbatim>\<open>user_auth_app/models.py\<close>;
  the serializers, views and permissions that operate on them are in
  \<^verbatim>\<open>sales_app/api\<close>. Rows are records, a table is the list of its rows in insertion
  order, primary keys are integers handed out by a per-table counter. Timestamps and the
  uploaded image of an offer play no part in what follows and are left out.
\<close>

type_synonym pk = int

record user =
  u_id :: pk
  is_staff :: bool
  is_superuser :: bool

record profile =
  p_id :: pk
  p_user :: pk
  p_type :: string

record offer =
  o_id :: pk
  o_user_profile :: pk
  o_title :: string
  o_description :: string

record offer_detail =
  d_id :: pk
  d_offer :: pk
  d_title :: string
  d_revisions :: int
  d_delivery_time_in_days :: int
  d_price :: rat
  d_features :: "string list"
  d_offer_type :: string

record order =
  ord_id :: pk
  ord_customer_user :: pk
  ord_offer_detail :: pk
  ord_status :: string

record review =
  r_id :: pk
  r_business_user :: pk
  r_reviewer :: pk
  r_rating :: int
  r_description :: string

record db =
  profiles :: "profile list"
  offers :: "offer list"
  offer_details :: "offer_detail list"
  orders :: "order list"
  reviews :: "review list"
  next_offer :: pk
  next_offer_detail :: pk
  next_order :: pk
  next_review :: pk

text \<open>
  The exceptions of the REST framework that the code raises, as values. \<open>NotAuthenticated\<close>
  is what the framework's \<^verbatim>\<open>permission_denied\<close> raises for a request without a
  successful authenticator, \<open>PermissionDenied\<close> what it raises otherwise.
\<close>

datatype error =
    ValidationError string
  | NotFound string
  | PermissionDenied string
  | NotAuthenticated

text \<open>
  \<^verbatim>\<open>request.user\<close> is \<open>None\<close> for the anonymous user and \<open>Some u\<close> for an
  authenticated account. \<^verbatim>\<open>getattr(user, "userprofile", None)\<close> follows the one-to-one
  relation from the account to its profile and yields \<open>None\<close> when there is none.
\<close>

definition userprofile :: "db \<Rightarrow> user option \<Rightarrow> profile option" where
  "userprofile s usr =
     (case usr of
        None \<Rightarrow> None
      | Some u \<Rightarrow> find (\<lambda>p. p_user p = u_id u) (profiles s))"

definition is_authenticated :: "user option \<Rightarrow> bool" where
  "is_authenticated usr = (usr \<noteq> None)"

section \<open>Reviews\<close>

text \<open>
  \<^verbatim>\<open>ReviewSerializer.create\<close>. The validated data holds the writable fields
  \<^verbatim>\<open>business_user\<close>, \<^verbatim>\<open>rating\<close> and \<^verbatim>\<open>description\<close>; \<^verbatim>\<open>reviewer\<close> is
  read-only and is set from the requester's profile.
\<close>

record review_data =
  rd_business_user :: pk
  rd_rating :: int
  rd_description :: string

definition Review_exists :: "db \<Rightarrow> pk \<Rightarrow> pk \<Rightarrow> bool" where
  "Review_exists s business reviewer =
     (filter (\<lambda>r. r_business_user r = business \<and> r_reviewer r = reviewer) (reviews s) \<noteq> [])"

definition Review_objects_create :: "db \<Rightarrow> pk \<Rightarrow> review_data \<Rightarrow> review \<times> db" where
  "Review_objects_create s reviewer vd =
     (let row = \<lparr>r_id = next_review s, r_business_user = rd_business_user vd,
                 r_reviewer = reviewer, r_rating = rd_rating vd,
                 r_description = rd_description vd\<rparr>
      in (row, s\<lparr>reviews := reviews s @ [row], next_review := next_review s + 1\<rparr>))"

definition ReviewSerializer_create ::
  "db \<Rightarrow> user option \<Rightarrow> review_data \<Rightarrow> (error + review) \<times> db" where
  "ReviewSerializer_create s usr vd =
     (if \<not> is_authenticated usr then (Inl (PermissionDenied ''Authentication required.''), s)
      else case userprofile s usr of
        None \<Rightarrow> (Inl (PermissionDenied ''User profile not found.''), s)
      | Some up \<Rightarrow>
          if Review_exists s (rd_business_user vd) (p_id up)
          then (Inl (ValidationError
                  ''You have already submitted a review for this business user.''), s)
          else (case Review_objects_create s (p_id up) vd of (row, s') \<Rightarrow> (Inr row, s')))"

text \<open>The invariant of the review table: no two rows share (business profile, reviewer).\<close>

definition review_pairs :: "db \<Rightarrow> (pk \<times> pk) list" where
  "review_pairs s = map (\<lambda>r. (r_business_user r, r_reviewer r)) (reviews s)"

definition one_review_per_pair :: "db \<Rightarrow> bool" where
  "one_review_per_pair s = distinct (review_pairs s)"

section \<open>Offers and their details\<close>

text \<open>
  The validated data of \<^verbatim>\<open>OfferCreateSerializer\<close>: the offer's own writable fields and
  the nested list \<^verbatim>\<open>details\<close>, each entry validated by \<^verbatim>\<open>OfferDetailSerializer\<close>
  (every field but the read-only \<^verbatim>\<open>id\<close>; there is no \<^verbatim>\<open>offer\<close> field). The field is
  declared \<^verbatim>\<open>OfferDetailSerializer(many=True)\<close> with no further option or validator, so
  the list may hold any number of entries. The validation of a create is not partial:
  a nested entry holds every field the model requires, and the insert fills in what the
  model defaults, so the entry is kept as the complete tuple of values of the new row.
\<close>

record detail_data =
  dd_title :: string
  dd_revisions :: int
  dd_delivery_time_in_days :: int
  dd_price :: rat
  dd_features :: "string list"
  dd_offer_type :: string

record offer_data =
  od_title :: string
  od_description :: string
  od_details :: "detail_data list"

text \<open>
  The validation of an update may be partial (\<^verbatim>\<open>OfferDetailView.update\<close> passes
  \<^verbatim>\<open>partial\<close> on, set for a PATCH): every top-level field may be missing
  (\<^verbatim>\<open>pop("details", None)\<close>), and a nested entry holds only the attributes the request
  submitted; even its tier may be missing (\<^verbatim>\<open>detail_data.get("offer_type")\<close>).
\<close>

record detail_patch =
  dp_title :: "string option"
  dp_revisions :: "int option"
  dp_delivery_time_in_days :: "int option"
  dp_price :: "rat option"
  dp_features :: "string list option"
  dp_offer_type :: "string option"

record offer_update_data =
  ou_title :: "string option"
  ou_description :: "string option"
  ou_details :: "detail_patch list option"

datatype db_error = IntegrityError

definition Offer_objects_create :: "db \<Rightarrow> pk \<Rightarrow> string \<Rightarrow> string \<Rightarrow> offer \<times> db" where
  "Offer_objects_create s owner title description =
     (let row = \<lparr>o_id = next_offer s, o_user_profile = owner, o_title = title,
                 o_description = description\<rparr>
      in (row, s\<lparr>offers := offers s @ [row], next_offer := next_offer s + 1\<rparr>))"

definition new_detail :: "pk \<Rightarrow> pk \<Rightarrow> detail_data \<Rightarrow> offer_detail" where
  "new_detail i off dd =
     \<lparr>d_id = i, d_offer = off, d_title = dd_title dd, d_revisions = dd_revisions dd,
      d_delivery_time_in_days = dd_delivery_time_in_days dd, d_price = dd_price dd,
      d_features = dd_features dd, d_offer_type = dd_offer_type dd\<rparr>"

definition tier_taken :: "db \<Rightarrow> pk \<Rightarrow> string \<Rightarrow> bool" where
  "tier_taken s off t =
     list_ex (\<lambda>r. d_offer r = off \<and> d_offer_type r = t) (offer_details s)"

text \<open>
  Modelled from the spec: the class \<^verbatim>\<open>OfferDetail\<close> of \<^verbatim>\<open>sales_app/models.py\<close> and
  its constraints are not part of the sources at hand. The data model of the
  specification gives the invariant of the table, ``tier unique within its parent
  offer''; the insert therefore raises \<^verbatim>\<open>IntegrityError\<close>, the exception the
  serializer catches, exactly when a row of the same offer already carries the tier.
  Each statement is committed on its own: the settings do not turn on
  \<^verbatim>\<open>ATOMIC_REQUESTS\<close> and the serializer opens no transaction.
\<close>

definition OfferDetail_objects_create ::
  "db \<Rightarrow> pk \<Rightarrow> detail_data \<Rightarrow> db_error + (offer_detail \<times> db)" where
  "OfferDetail_objects_create s off dd =
     (if tier_taken s off (dd_offer_type dd) then Inl IntegrityError
      else let row = new_detail (next_offer_detail s) off dd
           in Inr (row, s\<lparr>offer_details := offer_details s @ [row],
                           next_offer_detail := next_offer_detail s + 1\<rparr>))"

text \<open>The loop \<^verbatim>\<open>for detail in details\<close> of \<^verbatim>\<open>OfferCreateSerializer.create\<close>.\<close>

fun create_details :: "db \<Rightarrow> offer \<Rightarrow> detail_data list \<Rightarrow> (error + offer) \<times> db" where
  "create_details s off [] = (Inr off, s)"
| "create_details s off (dd # rest) =
     (case OfferDetail_objects_create s (o_id off) dd of
        Inl IntegrityError \<Rightarrow> (Inl (ValidationError ''Create Detail failed.''), s)
      | Inr (row, s') \<Rightarrow> create_details s' off rest)"

definition OfferCreateSerializer_create ::
  "db \<Rightarrow> user option \<Rightarrow> offer_data \<Rightarrow> (error + offer) \<times> db" where
  "OfferCreateSerializer_create s usr vd =
     (case userprofile s usr of
        None \<Rightarrow> (Inl (ValidationError ''User Profile does not exist.''), s)
      | Some up \<Rightarrow>
          (case Offer_objects_create s (p_id up) (od_title vd) (od_description vd) of
             (off, s') \<Rightarrow> create_details s' off (od_details vd)))"

text \<open>
  \<^verbatim>\<open>OfferCreateSerializer.update\<close>. \<^verbatim>\<open>instance.save()\<close> and \<^verbatim>\<open>detail.save()\<close>
  write the object back to the row with its primary key.
\<close>

definition Offer_save :: "db \<Rightarrow> offer \<Rightarrow> db" where
  "Offer_save s off =
     s\<lparr>offers := map (\<lambda>r. if o_id r = o_id off then off else r) (offers s)\<rparr>"

definition OfferDetail_save :: "db \<Rightarrow> offer_detail \<Rightarrow> db" where
  "OfferDetail_save s det =
     s\<lparr>offer_details := map (\<lambda>r. if d_id r = d_id det then det else r) (offer_details s)\<rparr>"

definition set_offer_attrs :: "offer \<Rightarrow> offer_update_data \<Rightarrow> offer" where
  "set_offer_attrs off vd =
     off\<lparr>o_title := (case ou_title vd of None \<Rightarrow> o_title off | Some v \<Rightarrow> v),
         o_description := (case ou_description vd of None \<Rightarrow> o_description off | Some v \<Rightarrow> v)\<rparr>"

text \<open>
  \<^verbatim>\<open>for attr, value in detail_data.items(): setattr(detail, attr, value)\<close>: only the
  attributes the entry holds are assigned.
\<close>

definition set_detail_attrs :: "offer_detail \<Rightarrow> detail_patch \<Rightarrow> offer_detail" where
  "set_detail_attrs det dp =
     det\<lparr>d_title := (case dp_title dp of None \<Rightarrow> d_title det | Some v \<Rightarrow> v),
         d_revisions := (case dp_revisions dp of None \<Rightarrow> d_revisions det | Some v \<Rightarrow> v),
         d_delivery_time_in_days :=
           (case dp_delivery_time_in_days dp of
              None \<Rightarrow> d_delivery_time_in_days det
            | Some v \<Rightarrow> v),
         d_price := (case dp_price dp of None \<Rightarrow> d_price det | Some v \<Rightarrow> v),
         d_features := (case dp_features dp of None \<Rightarrow> d_features det | Some v \<Rightarrow> v),
         d_offer_type := (case dp_offer_type dp of None \<Rightarrow> d_offer_type det | Some v \<Rightarrow> v)\<rparr>"

text \<open>
  Modelled from the spec: \<^verbatim>\<open>OfferDetail.objects.create(offer=instance, **detail_data)\<close>
  in the update loop receives what the entry holds. The columns of \<^verbatim>\<open>OfferDetail\<close>
  and their defaults are declared in \<^verbatim>\<open>sales_app/models.py\<close>, which is not part of the
  sources at hand. The defaults are the parameter \<open>dflt\<close>, \<open>None\<close> for a column without
  one. In the data model of the specification every detail has all of its attributes, so
  a column that gets a value neither from the entry nor from a default makes the insert
  raise \<^verbatim>\<open>IntegrityError\<close>, as a repeated tier does.
\<close>

definition or_default :: "'a option \<Rightarrow> 'a option \<Rightarrow> 'a option" where
  "or_default submitted d = (case submitted of Some v \<Rightarrow> Some v | None \<Rightarrow> d)"

definition kwargs_row :: "detail_patch \<Rightarrow> detail_patch \<Rightarrow> detail_data option" where
  "kwargs_row dflt dp =
     (case (or_default (dp_title dp) (dp_title dflt),
            or_default (dp_revisions dp) (dp_revisions dflt),
            or_default (dp_delivery_time_in_days dp) (dp_delivery_time_in_days dflt),
            or_default (dp_price dp) (dp_price dflt),
            or_default (dp_features dp) (dp_features dflt),
            or_default (dp_offer_type dp) (dp_offer_type dflt)) of
        (Some t, Some r, Some dl, Some p, Some f, Some ty) \<Rightarrow>
          Some \<lparr>dd_title = t, dd_revisions = r, dd_delivery_time_in_days = dl, dd_price = p,
                dd_features = f, dd_offer_type = ty\<rparr>
      | _ \<Rightarrow> None)"

definition OfferDetail_objects_create_kwargs ::
  "db \<Rightarrow> detail_patch \<Rightarrow> pk \<Rightarrow> detail_patch \<Rightarrow> db_error + (offer_detail \<times> db)" where
  "OfferDetail_objects_create_kwargs s dflt off dp =
     (case kwargs_row dflt dp of
        None \<Rightarrow> Inl IntegrityError
      | Some dd \<Rightarrow> OfferDetail_objects_create s off dd)"

text \<open>\<^verbatim>\<open>instance.details.all()\<close>, the reverse relation of the foreign key.\<close>

definition details_of :: "db \<Rightarrow> pk \<Rightarrow> offer_detail list" where
  "details_of s off = filter (\<lambda>r. d_offer r = off) (offer_details s)"

text \<open>
  \<^verbatim>\<open>{d.offer_type: d for d in instance.details.all()}\<close>: a later row wins over an
  earlier one with the same key, hence the reversal before \<open>map_of\<close>.
\<close>

definition existing_details :: "db \<Rightarrow> pk \<Rightarrow> (string \<rightharpoonup> offer_detail)" where
  "existing_details s off = map_of (rev (map (\<lambda>d. (d_offer_type d, d)) (details_of s off)))"

text \<open>
  The loop \<^verbatim>\<open>for detail_data in details_data\<close>. The dictionary is built once, before the
  loop; the objects it holds are the ones the loop mutates and saves. An entry without a
  tier is in no dictionary (\<^verbatim>\<open>None in existing_details\<close> is false) and goes to the
  insert, as an entry does whose tier is not a key.
\<close>

fun update_details ::
  "db \<Rightarrow> detail_patch \<Rightarrow> offer \<Rightarrow> (string \<rightharpoonup> offer_detail) \<Rightarrow> detail_patch list \<Rightarrow>
     (error + offer) \<times> db" where
  "update_details s dflt instance existing [] = (Inr instance, s)"
| "update_details s dflt instance existing (detail_data # rest) =
     (case dp_offer_type detail_data of
        None \<Rightarrow>
          (case OfferDetail_objects_create_kwargs s dflt (o_id instance) detail_data of
             Inl IntegrityError \<Rightarrow> (Inl (ValidationError ''Create Detail failed.''), s)
           | Inr (row, s') \<Rightarrow> update_details s' dflt instance existing rest)
      | Some offer_type \<Rightarrow>
          (case existing offer_type of
             Some detail \<Rightarrow>
               (let detail' = set_detail_attrs detail detail_data
                in update_details (OfferDetail_save s detail') dflt instance
                     (existing(offer_type \<mapsto> detail')) rest)
           | None \<Rightarrow>
               (case OfferDetail_objects_create_kwargs s dflt (o_id instance) detail_data of
                  Inl IntegrityError \<Rightarrow> (Inl (ValidationError ''Create Detail failed.''), s)
                | Inr (row, s') \<Rightarrow> update_details s' dflt instance existing rest)))"

definition OfferCreateSerializer_update ::
  "db \<Rightarrow> detail_patch \<Rightarrow> offer \<Rightarrow> offer_update_data \<Rightarrow> (error + offer) \<times> db" where
  "OfferCreateSerializer_update s dflt instance vd =
     (let instance' = set_offer_attrs instance vd;
          s1 = Offer_save s instance'
      in case ou_details vd of
           None \<Rightarrow> (Inr instance', s1)
         | Some details_data \<Rightarrow>
             update_details s1 dflt instance' (existing_details s1 (o_id instance'))
               details_data)"

text \<open>
  \<^verbatim>\<open>OfferBaseSerializer.get_min_price\<close> and \<^verbatim>\<open>get_min_delivery_time\<close>. The argument
  \<open>annotated\<close> is the attribute the list view's queryset annotates on the object; the
  retrieve view's queryset is \<^verbatim>\<open>Offer.objects.all()\<close> and leaves it absent.
\<close>

definition get_min_price :: "db \<Rightarrow> rat option \<Rightarrow> offer \<Rightarrow> rat option" where
  "get_min_price s annotated obj =
     (case annotated of
        Some v \<Rightarrow> Some v
      | None \<Rightarrow>
          (let prices = map d_price (details_of s (o_id obj))
           in if prices \<noteq> [] then Some (min_list prices) else None))"

definition get_min_delivery_time :: "db \<Rightarrow> int option \<Rightarrow> offer \<Rightarrow> int option" where
  "get_min_delivery_time s annotated obj =
     (case annotated of
        Some v \<Rightarrow> Some v
      | None \<Rightarrow>
          (let times = map d_delivery_time_in_days (details_of s (o_id obj))
           in if times \<noteq> [] then Some (min_list times) else None))"

section \<open>Orders\<close>

text \<open>
  The body of a request is a JSON object, kept as the list of its members. The members
  that matter here are integers and strings.
\<close>

datatype jvalue = JInt int | JStr string | JNull

type_synonym body = "(string \<times> jvalue) list"

text \<open>
  \<^verbatim>\<open>OrderSerializer.Meta.fields\<close>. Of these only \<^verbatim>\<open>status\<close> and
  \<^verbatim>\<open>offer_detail_id\<close> are writable: \<^verbatim>\<open>id\<close>, \<^verbatim>\<open>customer_user\<close>,
  \<^verbatim>\<open>created_at\<close> and \<^verbatim>\<open>updated_at\<close> are listed in \<^verbatim>\<open>read_only_fields\<close>, the
  others are \<^verbatim>\<open>SerializerMethodField\<close>s.
\<close>

definition OrderSerializer_fields :: "string list" where
  "OrderSerializer_fields =
     [''id'', ''title'', ''customer_user'', ''business_user'', ''status'', ''created_at'',
      ''updated_at'', ''offer_detail_id'', ''revisions'', ''price'',
      ''delivery_time_in_days'', ''features'', ''offer_type'']"

record order_data =
  vd_offer_detail_id :: int
  vd_status :: "string option"

text \<open>
  Modelled from the spec: the choices of \<^verbatim>\<open>Order.status\<close> and its default are declared
  in \<^verbatim>\<open>sales_app/models.py\<close>, which is not part of the sources at hand; the data model
  of the specification lists the three states, and a new order counts as in progress.
\<close>

definition status_choices :: "string list" where
  "status_choices = [''in_progress'', ''completed'', ''cancelled'']"

definition default_status :: string where
  "default_status = ''in_progress''"

text \<open>
  The field validation that \<^verbatim>\<open>super().to_internal_value(data)\<close> runs, over the writable
  fields only: whatever the body says under a read-only name is never looked at.
\<close>

definition validate_status :: "body \<Rightarrow> error + string option" where
  "validate_status data =
     (case map_of data ''status'' of
        None \<Rightarrow> Inr None
      | Some (JStr v) \<Rightarrow>
          if v \<in> set status_choices then Inr (Some v)
          else Inl (ValidationError ''status: not a valid choice.'')
      | Some _ \<Rightarrow> Inl (ValidationError ''status: not a valid choice.''))"

definition validate_offer_detail_id :: "body \<Rightarrow> error + int" where
  "validate_offer_detail_id data =
     (case map_of data ''offer_detail_id'' of
        None \<Rightarrow> Inl (ValidationError ''offer_detail_id: This field is required.'')
      | Some (JInt n) \<Rightarrow> Inr n
      | Some _ \<Rightarrow> Inl (ValidationError ''offer_detail_id: A valid integer is required.''))"

definition ModelSerializer_to_internal_value :: "body \<Rightarrow> error + order_data" where
  "ModelSerializer_to_internal_value data =
     (case validate_status data of
        Inl e \<Rightarrow> Inl e
      | Inr st \<Rightarrow>
          (case validate_offer_detail_id data of
             Inl e \<Rightarrow> Inl e
           | Inr n \<Rightarrow> Inr \<lparr>vd_offer_detail_id = n, vd_status = st\<rparr>))"

text \<open>
  \<^verbatim>\<open>StrictModelSerializer.to_internal_value\<close>: a member whose name is not a field of the
  serializer rejects the request. The names in the message are those of the body, in its
  order.
\<close>

fun join_names :: "string list \<Rightarrow> string" where
  "join_names [] = []"
| "join_names [x] = x"
| "join_names (x # y # rest) = x @ '', '' @ join_names (y # rest)"

definition StrictModelSerializer_to_internal_value :: "body \<Rightarrow> error + order_data" where
  "StrictModelSerializer_to_internal_value data =
     (let allowed = OrderSerializer_fields;
          received = map fst data;
          unexpected = filter (\<lambda>k. k \<notin> set allowed) received
      in if unexpected \<noteq> []
         then Inl (ValidationError (''Unexpected fields: '' @ join_names (remdups unexpected)))
         else ModelSerializer_to_internal_value data)"

definition OfferDetail_objects_get :: "db \<Rightarrow> int \<Rightarrow> offer_detail option" where
  "OfferDetail_objects_get s i = find (\<lambda>d. d_id d = i) (offer_details s)"

definition Order_objects_create :: "db \<Rightarrow> pk \<Rightarrow> pk \<Rightarrow> order \<times> db" where
  "Order_objects_create s customer detail =
     (let row = \<lparr>ord_id = next_order s, ord_customer_user = customer,
                 ord_offer_detail = detail, ord_status = default_status\<rparr>
      in (row, s\<lparr>orders := orders s @ [row], next_order := next_order s + 1\<rparr>))"

definition OrderSerializer_create ::
  "db \<Rightarrow> user option \<Rightarrow> order_data \<Rightarrow> (error + order) \<times> db" where
  "OrderSerializer_create s usr vd =
     (case userprofile s usr of
        None \<Rightarrow> (Inl (ValidationError ''User Profile does not exist.''), s)
      | Some customer_user \<Rightarrow>
          (case OfferDetail_objects_get s (vd_offer_detail_id vd) of
             None \<Rightarrow> (Inl (NotFound ''OfferDetail not found.''), s)
           | Some detail \<Rightarrow>
               (case Order_objects_create s (p_id customer_user) (d_id detail) of
                  (row, s') \<Rightarrow> (Inr row, s'))))"

text \<open>
  The getters of \<^verbatim>\<open>OrderSerializer\<close>. \<^verbatim>\<open>obj.offer_detail\<close> follows the foreign key of
  the order into the table of details as it is when the order is read; a getter yields
  \<open>None\<close> where that dereference would raise.
\<close>

definition order_offer_detail :: "db \<Rightarrow> order \<Rightarrow> offer_detail option" where
  "order_offer_detail s obj = OfferDetail_objects_get s (ord_offer_detail obj)"

definition get_revisions :: "db \<Rightarrow> order \<Rightarrow> int option" where
  "get_revisions s obj = map_option d_revisions (order_offer_detail s obj)"

definition get_title :: "db \<Rightarrow> order \<Rightarrow> string option" where
  "get_title s obj = map_option d_title (order_offer_detail s obj)"

definition get_price :: "db \<Rightarrow> order \<Rightarrow> rat option" where
  "get_price s obj = map_option d_price (order_offer_detail s obj)"

definition get_delivery_time_in_days :: "db \<Rightarrow> order \<Rightarrow> int option" where
  "get_delivery_time_in_days s obj =
     map_option d_delivery_time_in_days (order_offer_detail s obj)"

definition get_features :: "db \<Rightarrow> order \<Rightarrow> string list option" where
  "get_features s obj = map_option d_features (order_offer_detail s obj)"

definition get_offer_type :: "db \<Rightarrow> order \<Rightarrow> string option" where
  "get_offer_type s obj = map_option d_offer_type (order_offer_detail s obj)"

definition get_business_user :: "db \<Rightarrow> order \<Rightarrow> pk option" where
  "get_business_user s obj =
     (case order_offer_detail s obj of
        None \<Rightarrow> None
      | Some d \<Rightarrow>
          (case find (\<lambda>off. o_id off = d_offer d) (offers s) of
             None \<Rightarrow> None
           | Some off \<Rightarrow>
               map_option p_id (find (\<lambda>p. p_id p = o_user_profile off) (profiles s))))"

record order_repr =
  rep_id :: pk
  rep_title :: string
  rep_customer_user :: pk
  rep_business_user :: pk
  rep_status :: string
  rep_revisions :: int
  rep_price :: rat
  rep_delivery_time_in_days :: int
  rep_features :: "string list"
  rep_offer_type :: string

definition OrderSerializer_to_representation :: "db \<Rightarrow> order \<Rightarrow> order_repr option" where
  "OrderSerializer_to_representation s obj =
     (case (get_title s obj, get_business_user s obj, get_revisions s obj, get_price s obj,
            get_delivery_time_in_days s obj, get_features s obj, get_offer_type s obj) of
        (Some t, Some b, Some r, Some p, Some dl, Some f, Some ty) \<Rightarrow>
          Some \<lparr>rep_id = ord_id obj, rep_title = t, rep_customer_user = ord_customer_user obj,
                rep_business_user = b, rep_status = ord_status obj, rep_revisions = r,
                rep_price = p, rep_delivery_time_in_days = dl, rep_features = f,
                rep_offer_type = ty\<rparr>
      | _ \<Rightarrow> None)"

text \<open>
  \<^verbatim>\<open>OrderListCreateView\<close>, permission class \<^verbatim>\<open>IsAuthenticated\<close>. A POST validates the
  body, saves through the serializer and answers with the order it created; the request
  quota of the throttle is a matter of time and is left out.
\<close>

definition OrderListCreateView_post ::
  "db \<Rightarrow> user option \<Rightarrow> body \<Rightarrow> (error + order) \<times> db" where
  "OrderListCreateView_post s usr data =
     (if \<not> is_authenticated usr then (Inl NotAuthenticated, s)
      else case StrictModelSerializer_to_internal_value data of
        Inl e \<Rightarrow> (Inl e, s)
      | Inr vd \<Rightarrow> OrderSerializer_create s usr vd)"

text \<open>
  \<^verbatim>\<open>OrderListCreateView.get_queryset\<close>. The lookup
  \<^verbatim>\<open>offer_detail__offer__user_profile\<close> joins the order with its detail and that
  detail's offer.
\<close>

definition order_offer_owner :: "db \<Rightarrow> order \<Rightarrow> pk option" where
  "order_offer_owner s obj =
     (case order_offer_detail s obj of
        None \<Rightarrow> None
      | Some d \<Rightarrow> map_option o_user_profile (find (\<lambda>off. o_id off = d_offer d) (offers s)))"

definition OrderListCreateView_get_queryset :: "db \<Rightarrow> user option \<Rightarrow> error + order list" where
  "OrderListCreateView_get_queryset s usr =
     (case userprofile s usr of
        None \<Rightarrow> Inl (PermissionDenied ''User profile not found.'')
      | Some user_profile \<Rightarrow>
          if p_type user_profile = ''customer''
          then Inr (filter (\<lambda>obj. ord_customer_user obj = p_id user_profile) (orders s))
          else if p_type user_profile = ''business''
          then Inr (filter (\<lambda>obj. order_offer_owner s obj = Some (p_id user_profile)) (orders s))
          else Inr [])"

definition OrderListCreateView_get :: "db \<Rightarrow> user option \<Rightarrow> error + order list" where
  "OrderListCreateView_get s usr =
     (if \<not> is_authenticated usr then Inl NotAuthenticated
      else OrderListCreateView_get_queryset s usr)"

section \<open>The single-offer endpoint\<close>

datatype http_method = GET | HEAD | OPTIONS | POST | PUT | PATCH | DELETE

definition SAFE_METHODS :: "http_method list" where
  "SAFE_METHODS = [GET, HEAD, OPTIONS]"

text \<open>
  \<^verbatim>\<open>IsAuthenticatedForReadAndBusinessOwnerForWrite\<close>, the permission class of
  \<^verbatim>\<open>OfferDetailView\<close>.
\<close>

definition has_permission :: "user option \<Rightarrow> bool" where
  "has_permission usr = is_authenticated usr"

definition has_object_permission :: "db \<Rightarrow> user option \<Rightarrow> http_method \<Rightarrow> offer \<Rightarrow> bool" where
  "has_object_permission s usr method obj =
     (if method \<in> set SAFE_METHODS then True
      else case userprofile s usr of
        None \<Rightarrow> False
      | Some prof \<Rightarrow> p_id prof = o_user_profile obj)"

text \<open>
  The framework's \<^verbatim>\<open>permission_denied\<close>: a request that no authenticator accepted is
  answered as unauthenticated, any other as forbidden.
\<close>

definition permission_denied :: "user option \<Rightarrow> error" where
  "permission_denied usr =
     (if is_authenticated usr then PermissionDenied ''You do not have permission to perform this action.''
      else NotAuthenticated)"

text \<open>
  \<^verbatim>\<open>OfferDetailLightSerializer\<close>: fields \<^verbatim>\<open>id\<close> and \<^verbatim>\<open>url\<close>, the latter the link to
  the detail's own endpoint \<^verbatim>\<open>offer-detail-detail\<close>, kept as the key it is built from.
\<close>

datatype url = Offer_detail_detail pk

record light_detail =
  ld_id :: pk
  ld_url :: url

definition OfferDetailLightSerializer :: "offer_detail \<Rightarrow> light_detail" where
  "OfferDetailLightSerializer d = \<lparr>ld_id = d_id d, ld_url = Offer_detail_detail (d_id d)\<rparr>"

text \<open>
  \<^verbatim>\<open>OfferListSerializer\<close>, the serializer of the safe methods. \<^verbatim>\<open>user_details\<close>, the
  names of the owner's account, is left out with the account table.
\<close>

record offer_repr =
  or_id :: pk
  or_title :: string
  or_description :: string
  or_details :: "light_detail list"
  or_user :: pk
  or_min_price :: "rat option"
  or_min_delivery_time :: "int option"

definition OfferListSerializer :: "db \<Rightarrow> offer \<Rightarrow> offer_repr" where
  "OfferListSerializer s obj =
     \<lparr>or_id = o_id obj, or_title = o_title obj, or_description = o_description obj,
      or_details = map OfferDetailLightSerializer (details_of s (o_id obj)),
      or_user = o_user_profile obj,
      or_min_price = get_min_price s None obj,
      or_min_delivery_time = get_min_delivery_time s None obj\<rparr>"

text \<open>
  \<^verbatim>\<open>OfferDetailView\<close> answering a GET, in the order of the framework: the permission
  check of the view, \<^verbatim>\<open>get_object\<close> with its 404, the permission check of the object,
  the serializer.
\<close>

definition OfferDetailView_get :: "db \<Rightarrow> user option \<Rightarrow> pk \<Rightarrow> error + offer_repr" where
  "OfferDetailView_get s usr i =
     (if \<not> has_permission usr then Inl (permission_denied usr)
      else case find (\<lambda>off. o_id off = i) (offers s) of
        None \<Rightarrow> Inl (NotFound ''No Offer matches the given query.'')
      | Some obj \<Rightarrow>
          if \<not> has_object_permission s usr GET obj then Inl (permission_denied usr)
          else Inr (OfferListSerializer s obj))"

section \<open>The write endpoints of offers\<close>

text \<open>
  \<^verbatim>\<open>PublicReadBusinessWrite\<close>, the permission class of \<^verbatim>\<open>OfferListCreateView\<close>:
  safe methods are public, any other method needs an authenticated account whose
  profile is of type business.
\<close>

definition PublicReadBusinessWrite_has_permission ::
  "db \<Rightarrow> user option \<Rightarrow> http_method \<Rightarrow> bool" where
  "PublicReadBusinessWrite_has_permission s usr method =
     (if method \<in> set SAFE_METHODS then True
      else if \<not> is_authenticated usr then False
      else case userprofile s usr of
        None \<Rightarrow> False
      | Some up \<Rightarrow> p_type up = ''business'')"

text \<open>
  \<^verbatim>\<open>OfferListCreateView.create\<close>, the answer to a POST: the permission check of the
  view, then \<^verbatim>\<open>serializer.save()\<close> on the validated data, which is
  \<^verbatim>\<open>OfferCreateSerializer.create\<close>.
\<close>

definition OfferListCreateView_create ::
  "db \<Rightarrow> user option \<Rightarrow> offer_data \<Rightarrow> (error + offer) \<times> db" where
  "OfferListCreateView_create s usr vd =
     (if \<not> PublicReadBusinessWrite_has_permission s usr POST
      then (Inl (permission_denied usr), s)
      else OfferCreateSerializer_create s usr vd)"

text \<open>
  \<^verbatim>\<open>OfferDetailView.update\<close>, the answer to a PUT or a PATCH: the permission check of
  the view, \<^verbatim>\<open>get_object\<close> with its 404 and the permission check of the object, then
  \<^verbatim>\<open>serializer.save()\<close> on the validated data, which is
  \<^verbatim>\<open>OfferCreateSerializer.update\<close>.
\<close>

definition OfferDetailView_update ::
  "db \<Rightarrow> detail_patch \<Rightarrow> user option \<Rightarrow> http_method \<Rightarrow> pk \<Rightarrow> offer_update_data \<Rightarrow>
     (error + offer) \<times> db" where
  "OfferDetailView_update s dflt usr method i vd =
     (if \<not> has_permission usr then (Inl (permission_denied usr), s)
      else case find (\<lambda>off. o_id off = i) (offers s) of
        None \<Rightarrow> (Inl (NotFound ''No Offer matches the given query.''), s)
      | Some instance \<Rightarrow>
          if \<not> has_object_permission s usr method instance
          then (Inl (permission_denied usr), s)
          else OfferCreateSerializer_update s dflt instance vd)"

section \<open>Platform statistics\<close>

text \<open>
  \<^verbatim>\<open>BaseInfoView.get\<close>. \<^verbatim>\<open>Avg("rating")\<close> is \<^verbatim>\<open>None\<close> over an empty table and the
  mean of the ratings otherwise. The mean and its rounding are taken over the rationals:
  \<^verbatim>\<open>round(average, 1)\<close> is the multiple of one tenth nearest to the mean, a tie going
  to the even one. The binary floating-point representation of the two numbers is not
  modelled.
\<close>

definition Avg_rating :: "db \<Rightarrow> rat option" where
  "Avg_rating s =
     (if reviews s = [] then None
      else Some (rat_of_int (sum_list (map r_rating (reviews s))) /
                 rat_of_int (int (length (reviews s)))))"

definition round1 :: "rat \<Rightarrow> rat" where
  "round1 x =
     (let y = x * 10; f = \<lfloor>y\<rfloor>; r = y - rat_of_int f
      in rat_of_int (if r < 1 / 2 then f
                     else if 1 / 2 < r then f + 1
                     else if even f then f else f + 1) / 10)"

record base_info =
  review_count :: nat
  average_rating :: rat
  business_profile_count :: nat
  offer_count :: nat

definition BaseInfoView_get :: "db \<Rightarrow> base_info" where
  "BaseInfoView_get s =
     (let average = Avg_rating s;
          average_rating = (case average of
                              None \<Rightarrow> 0
                            | Some a \<Rightarrow> if a \<noteq> 0 then round1 a else 0)
      in \<lparr>review_count = length (reviews s),
          average_rating = average_rating,
          business_profile_count = length (filter (\<lambda>p. p_type p = ''business'') (profiles s)),
          offer_count = length (offers s)\<rparr>)"

section \<open>The tables after a nested write\<close>

text \<open>
  The rows that inserting the entries of a list one after the other appends for an
  offer, the first with primary key \<open>i\<close>.
\<close>

fun detail_rows :: "pk \<Rightarrow> pk \<Rightarrow> detail_data list \<Rightarrow> offer_detail list" where
  "detail_rows i off [] = []"
| "detail_rows i off (dd # rest) = new_detail i off dd # detail_rows (i + 1) off rest"

text \<open>
  What the specification says an update with nested details does, stated on the table.
  A row of the offer takes, in the order of submission, the attributes of every
  submitted entry that names its tier, and keeps its key, its offer and its place. The
  entries that name no tier, or a tier the offer does not have, are the ones to insert:
  completed by the defaults of the model, they are appended as new rows. The insert is
  possible when each of these entries gets a value for every column and their tiers are
  pairwise distinct and not taken by a row of the offer.
\<close>

definition merged_row :: "pk \<Rightarrow> detail_patch list \<Rightarrow> offer_detail \<Rightarrow> offer_detail" where
  "merged_row off dps r =
     (if d_offer r = off
      then fold (\<lambda>dp row. set_detail_attrs row dp)
             (filter (\<lambda>dp. dp_offer_type dp = Some (d_offer_type r)) dps) r
      else r)"

definition new_tier_details :: "db \<Rightarrow> pk \<Rightarrow> detail_patch list \<Rightarrow> detail_patch list" where
  "new_tier_details s off dps =
     filter (\<lambda>dp. case dp_offer_type dp of None \<Rightarrow> True | Some t \<Rightarrow> \<not> tier_taken s off t) dps"

definition new_rows_data :: "db \<Rightarrow> detail_patch \<Rightarrow> pk \<Rightarrow> detail_patch list \<Rightarrow> detail_data list" where
  "new_rows_data s dflt off dps = List.map_filter (kwargs_row dflt) (new_tier_details s off dps)"

definition insertable :: "db \<Rightarrow> detail_patch \<Rightarrow> pk \<Rightarrow> detail_patch list \<Rightarrow> bool" where
  "insertable s dflt off dps \<longleftrightarrow>
     list_all (\<lambda>dp. kwargs_row dflt dp \<noteq> None) (new_tier_details s off dps) \<and>
     distinct (map dd_offer_type (new_rows_data s dflt off dps)) \<and>
     list_all (\<lambda>dd. \<not> tier_taken s off (dd_offer_type dd)) (new_rows_data s dflt off dps)"

definition merge_by_tier :: "db \<Rightarrow> detail_patch \<Rightarrow> pk \<Rightarrow> detail_patch list \<Rightarrow> db" where
  "merge_by_tier s dflt off dps =
     s\<lparr>offer_details := map (merged_row off dps) (offer_details s) @
          detail_rows (next_offer_detail s) off (new_rows_data s dflt off dps),
       next_offer_detail :=
         next_offer_detail s + int (length (new_rows_data s dflt off dps))\<rparr>"

text \<open>
  The state of the detail table that the database maintains: primary keys are unique and
  below the counter, and no offer has two rows of one tier.
\<close>

definition details_consistent :: "db \<Rightarrow> bool" where
  "details_consistent s \<longleftrightarrow>
     distinct (map d_id (offer_details s)) \<and>
     list_all (\<lambda>r. d_id r < next_offer_detail s) (offer_details s) \<and>
     distinct (map (\<lambda>r. (d_offer r, d_offer_type r)) (offer_details s))"

text \<open>
  The dictionary of the update loop holds, for each tier of the set \<open>E\<close>, the row of the
  offer with that tier as it currently is in the table, and nothing else.
\<close>

definition snapshot_of :: "db \<Rightarrow> pk \<Rightarrow> string set \<Rightarrow> (string \<rightharpoonup> offer_detail) \<Rightarrow> bool" where
  "snapshot_of s off E existing \<longleftrightarrow>
     (\<forall>t. if t \<in> E
          then (\<exists>r\<in>set (offer_details s). existing t = Some r \<and> d_offer r = off \<and>
                  d_offer_type r = t)
          else existing t = None)"

text \<open>The entries of an update that find no key in a dictionary with the keys \<open>E\<close>.\<close>

definition entries_outside :: "string set \<Rightarrow> detail_patch list \<Rightarrow> detail_patch list" where
  "entries_outside E dps =
     filter (\<lambda>dp. case dp_offer_type dp of None \<Rightarrow> True | Some t \<Rightarrow> t \<notin> E) dps"

section \<open>Fixture\<close>

text \<open>
  The data set of \<^verbatim>\<open>sales_app/tests.py\<close> (\<^verbatim>\<open>setUpTestData\<close>): a business account,
  two customer accounts, an account without a profile, a staff account with a business
  profile; one offer with a basic and a standard package, one order and one review.
\<close>

definition user_business :: user where
  "user_business = \<lparr>u_id = 1, is_staff = False, is_superuser = False\<rparr>"

definition user_customer :: user where
  "user_customer = \<lparr>u_id = 2, is_staff = False, is_superuser = False\<rparr>"

definition user_other :: user where
  "user_other = \<lparr>u_id = 3, is_staff = False, is_superuser = False\<rparr>"

definition user_no_profile :: user where
  "user_no_profile = \<lparr>u_id = 4, is_staff = False, is_superuser = False\<rparr>"

definition user_staff :: user where
  "user_staff = \<lparr>u_id = 5, is_staff = True, is_superuser = False\<rparr>"

definition detail_basic :: offer_detail where
  "detail_basic = \<lparr>d_id = 1, d_offer = 1, d_title = ''Basic'', d_revisions = 1,
     d_delivery_time_in_days = 3, d_price = 50, d_features = [''a'', ''b''],
     d_offer_type = ''basic''\<rparr>"

definition detail_standard :: offer_detail where
  "detail_standard = \<lparr>d_id = 2, d_offer = 1, d_title = ''Standard'', d_revisions = 2,
     d_delivery_time_in_days = 2, d_price = 90, d_features = [''a'', ''b'', ''c''],
     d_offer_type = ''standard''\<rparr>"

definition test_db :: db where
  "test_db = \<lparr>
     profiles = [\<lparr>p_id = 1, p_user = 1, p_type = ''business''\<rparr>,
                 \<lparr>p_id = 2, p_user = 2, p_type = ''customer''\<rparr>,
                 \<lparr>p_id = 3, p_user = 3, p_type = ''customer''\<rparr>,
                 \<lparr>p_id = 4, p_user = 5, p_type = ''business''\<rparr>],
     offers = [\<lparr>o_id = 1, o_user_profile = 1, o_title = ''Logo Design'',
                 o_description = ''I design a logo''\<rparr>],
     offer_details = [detail_basic, detail_standard],
     orders = [\<lparr>ord_id = 1, ord_customer_user = 2, ord_offer_detail = 1,
                 ord_status = ''in_progress''\<rparr>],
     reviews = [\<lparr>r_id = 1, r_business_user = 1, r_reviewer = 2, r_rating = 5,
                  r_description = ''Great!''\<rparr>],
     next_offer = 2, next_offer_detail = 3, next_order = 2, next_review = 2\<rparr>"

definition two_reviews_db :: db where
  "two_reviews_db = test_db\<lparr>reviews := reviews test_db @
     [\<lparr>r_id = 2, r_business_user = 1, r_reviewer = 3, r_rating = 4, r_description = ''ok''\<rparr>,
      \<lparr>r_id = 3, r_business_user = 4, r_reviewer = 3, r_rating = 4, r_description = ''ok''\<rparr>],
     next_review := 4\<rparr>"

definition duplicate_basic :: offer_data where
  "duplicate_basic = \<lparr>od_title = ''New Offer'', od_description = ''desc'',
     od_details =
       [\<lparr>dd_title = ''Basic'', dd_revisions = 1, dd_delivery_time_in_days = 3,
          dd_price = 10, dd_features = [''x''], dd_offer_type = ''basic''\<rparr>,
        \<lparr>dd_title = ''Basic again'', dd_revisions = 2, dd_delivery_time_in_days = 2,
          dd_price = 20, dd_features = [''x'', ''y''], dd_offer_type = ''basic''\<rparr>]\<rparr>"

definition no_details :: offer_data where
  "no_details = \<lparr>od_title = ''New Offer'', od_description = ''desc'', od_details = []\<rparr>"

definition offer_logo :: offer where
  "offer_logo = \<lparr>o_id = 1, o_user_profile = 1, o_title = ''Logo Design'',
     o_description = ''I design a logo''\<rparr>"

definition premium_a :: detail_patch where
  "premium_a = \<lparr>dp_title = Some ''Premium'', dp_revisions = Some 5,
     dp_delivery_time_in_days = Some 1, dp_price = Some 200,
     dp_features = Some [''a'', ''b'', ''c'', ''d''], dp_offer_type = Some ''premium''\<rparr>"

definition premium_b :: detail_patch where
  "premium_b = \<lparr>dp_title = Some ''Premium plus'', dp_revisions = Some 9,
     dp_delivery_time_in_days = Some 1, dp_price = Some 300, dp_features = Some [''a''],
     dp_offer_type = Some ''premium''\<rparr>"

definition basic_price :: detail_patch where
  "basic_price = \<lparr>dp_title = None, dp_revisions = None, dp_delivery_time_in_days = None,
     dp_price = Some 60, dp_features = None, dp_offer_type = Some ''basic''\<rparr>"

definition no_defaults :: detail_patch where
  "no_defaults = \<lparr>dp_title = None, dp_revisions = None, dp_delivery_time_in_days = None,
     dp_price = None, dp_features = None, dp_offer_type = None\<rparr>"

section \<open>Properties of reviews\<close>

lemma Review_exists_iff:
  "Review_exists s b rv \<longleftrightarrow> (b, rv) \<in> set (review_pairs s)"
  by (auto simp: Review_exists_def review_pairs_def filter_empty_conv)

lemma review_pairs_create:
  "review_pairs (snd (Review_objects_create s rv vd)) =
     review_pairs s @ [(rd_business_user vd, rv)]"
  by (simp add: Review_objects_create_def review_pairs_def Let_def)

lemma userprofile_after_review [simp]:
  "userprofile (snd (Review_objects_create s rv vd)) usr = userprofile s usr"
  by (simp add: Review_objects_create_def userprofile_def Let_def split: option.splits)

lemma userprofile_authenticated:
  "userprofile s usr = Some up \<Longrightarrow> is_authenticated usr"
  by (cases usr) (simp_all add: userprofile_def is_authenticated_def)

lemma ReviewSerializer_create_invariant:
  assumes "one_review_per_pair s"
  shows "one_review_per_pair (snd (ReviewSerializer_create s usr vd))"
proof (cases "userprofile s usr")
  case None
  then show ?thesis
    using assms by (simp add: ReviewSerializer_create_def)
next
  case (Some up)
  show ?thesis
  proof (cases "Review_exists s (rd_business_user vd) (p_id up)")
    case True
    with Some assms show ?thesis
      by (simp add: ReviewSerializer_create_def)
  next
    case False
    then have fresh: "(rd_business_user vd, p_id up) \<notin> set (review_pairs s)"
      by (simp add: Review_exists_iff)
    have "snd (ReviewSerializer_create s usr vd) =
            snd (Review_objects_create s (p_id up) vd)"
      using Some False userprofile_authenticated [OF Some]
      by (simp add: ReviewSerializer_create_def split: prod.splits)
    then show ?thesis
      using assms fresh
      by (simp add: one_review_per_pair_def review_pairs_create)
  qed
qed

text \<open>
  C7. At most one review exists per (reviewer, reviewed business) pair: creation keeps the
  table free of duplicate pairs; when the requester's profile has already reviewed the
  business, the create fails with a validation error and the store is left as it was (so
  the first review is unmodified); and after a successful create every further create by
  the same requester for the same business fails in that way.
\<close>

theorem review_unique_per_pair:
  assumes "one_review_per_pair s" and "userprofile s usr = Some up"
  shows "one_review_per_pair (snd (ReviewSerializer_create s usr vd)) \<and>
     (Review_exists s (rd_business_user vd) (p_id up) \<longrightarrow>
        ReviewSerializer_create s usr vd =
          (Inl (ValidationError
             ''You have already submitted a review for this business user.''), s)) \<and>
     (\<not> Review_exists s (rd_business_user vd) (p_id up) \<longrightarrow>
        (\<exists>row s1. ReviewSerializer_create s usr vd = (Inr row, s1) \<and>
           reviews s1 = reviews s @ [row] \<and>
           r_reviewer row = p_id up \<and> r_business_user row = rd_business_user vd \<and>
           (\<forall>vd'. rd_business_user vd' = rd_business_user vd \<longrightarrow>
              ReviewSerializer_create s1 usr vd' =
                (Inl (ValidationError
                   ''You have already submitted a review for this business user.''), s1))))"
proof (intro conjI impI)
  show "one_review_per_pair (snd (ReviewSerializer_create s usr vd))"
    using assms(1) by (rule ReviewSerializer_create_invariant)
next
  assume "Review_exists s (rd_business_user vd) (p_id up)"
  with assms(2) show "ReviewSerializer_create s usr vd =
      (Inl (ValidationError
         ''You have already submitted a review for this business user.''), s)"
    using userprofile_authenticated [OF assms(2)]
    by (simp add: ReviewSerializer_create_def)
next
  assume fresh: "\<not> Review_exists s (rd_business_user vd) (p_id up)"
  from assms(2) have auth: "is_authenticated usr"
    by (rule userprofile_authenticated)
  obtain row s1 where c: "Review_objects_create s (p_id up) vd = (row, s1)"
    by (cases "Review_objects_create s (p_id up) vd")
  then have res: "ReviewSerializer_create s usr vd = (Inr row, s1)"
    using assms(2) fresh auth by (simp add: ReviewSerializer_create_def)
  from c have row: "reviews s1 = reviews s @ [row]" "r_reviewer row = p_id up"
      "r_business_user row = rd_business_user vd"
    by (auto simp: Review_objects_create_def Let_def)
  have up1: "userprofile s1 usr = Some up"
    using userprofile_after_review [of s "p_id up" vd usr] c assms(2) by simp
  have ex1: "Review_exists s1 (rd_business_user vd) (p_id up)"
    using row by (simp add: Review_exists_def)
  have "ReviewSerializer_create s1 usr vd' =
      (Inl (ValidationError
         ''You have already submitted a review for this business user.''), s1)"
    if "rd_business_user vd' = rd_business_user vd" for vd'
    using that up1 ex1 auth by (simp add: ReviewSerializer_create_def)
  with res row show "\<exists>row s1. ReviewSerializer_create s usr vd = (Inr row, s1) \<and>
           reviews s1 = reviews s @ [row] \<and>
           r_reviewer row = p_id up \<and> r_business_user row = rd_business_user vd \<and>
           (\<forall>vd'. rd_business_user vd' = rd_business_user vd \<longrightarrow>
              ReviewSerializer_create s1 usr vd' =
                (Inl (ValidationError
                   ''You have already submitted a review for this business user.''), s1))"
    by blast
qed

lemmas fixture_defs = test_db_def detail_basic_def detail_standard_def user_business_def
  user_customer_def user_other_def user_no_profile_def user_staff_def

theorem review_unique_per_pair_witness:
  "one_review_per_pair test_db \<and>
   userprofile test_db (Some user_customer) = Some \<lparr>p_id = 2, p_user = 2, p_type = ''customer''\<rparr> \<and>
   Review_exists test_db 1 2 \<and>
   ReviewSerializer_create test_db (Some user_customer)
       \<lparr>rd_business_user = 1, rd_rating = 4, rd_description = ''dup''\<rparr> =
     (Inl (ValidationError ''You have already submitted a review for this business user.''),
      test_db)"
proof -
  have h1: "one_review_per_pair test_db"
    by (simp add: one_review_per_pair_def review_pairs_def fixture_defs)
  have h2: "userprofile test_db (Some user_customer) =
      Some \<lparr>p_id = 2, p_user = 2, p_type = ''customer''\<rparr>"
    by (simp add: userprofile_def fixture_defs)
  have h3: "Review_exists test_db 1 2"
    by (simp add: Review_exists_def fixture_defs)
  from review_unique_per_pair [OF h1 h2,
      of "\<lparr>rd_business_user = 1, rd_rating = 4, rd_description = ''dup''\<rparr>"] h1 h2 h3
  show ?thesis by simp
qed

section \<open>Properties of the order list\<close>

text \<open>
  C5. An authenticated requester without a profile is refused the order list with
  access-denied (the answer is an error, not an empty list). A requester whose profile is
  a customer gets exactly the orders that name this profile as customer; a requester
  whose profile is a business gets exactly the orders whose detail belongs to an offer
  this profile owns.
\<close>

theorem order_list_scope:
  "(is_authenticated usr \<and> userprofile s usr = None \<longrightarrow>
      OrderListCreateView_get s usr = Inl (PermissionDenied ''User profile not found.'')) \<and>
   (\<forall>up. userprofile s usr = Some up \<and> p_type up = ''customer'' \<longrightarrow>
      (\<exists>os. OrderListCreateView_get s usr = Inr os \<and>
         os = filter (\<lambda>obj. ord_customer_user obj = p_id up) (orders s) \<and>
         (\<forall>obj. obj \<in> set os \<longleftrightarrow>
            obj \<in> set (orders s) \<and> ord_customer_user obj = p_id up))) \<and>
   (\<forall>up. userprofile s usr = Some up \<and> p_type up = ''business'' \<longrightarrow>
      (\<exists>os. OrderListCreateView_get s usr = Inr os \<and>
         os = filter (\<lambda>obj. order_offer_owner s obj = Some (p_id up)) (orders s) \<and>
         (\<forall>obj. obj \<in> set os \<longleftrightarrow>
            obj \<in> set (orders s) \<and>
            (\<exists>d off. OfferDetail_objects_get s (ord_offer_detail obj) = Some d \<and>
               find (\<lambda>off. o_id off = d_offer d) (offers s) = Some off \<and>
               o_user_profile off = p_id up))))"
proof (intro conjI allI impI)
  assume "is_authenticated usr \<and> userprofile s usr = None"
  then show "OrderListCreateView_get s usr = Inl (PermissionDenied ''User profile not found.'')"
    by (simp add: OrderListCreateView_get_def OrderListCreateView_get_queryset_def)
next
  fix up
  assume a: "userprofile s usr = Some up \<and> p_type up = ''customer''"
  then have "is_authenticated usr"
    by (blast intro: userprofile_authenticated)
  with a show "\<exists>os. OrderListCreateView_get s usr = Inr os \<and>
         os = filter (\<lambda>obj. ord_customer_user obj = p_id up) (orders s) \<and>
         (\<forall>obj. obj \<in> set os \<longleftrightarrow>
            obj \<in> set (orders s) \<and> ord_customer_user obj = p_id up)"
    by (auto simp: OrderListCreateView_get_def OrderListCreateView_get_queryset_def)
next
  fix up
  assume a: "userprofile s usr = Some up \<and> p_type up = ''business''"
  then have auth: "is_authenticated usr"
    by (blast intro: userprofile_authenticated)
  have owner: "order_offer_owner s obj = Some (p_id up) \<longleftrightarrow>
      (\<exists>d off. OfferDetail_objects_get s (ord_offer_detail obj) = Some d \<and>
         find (\<lambda>off. o_id off = d_offer d) (offers s) = Some off \<and>
         o_user_profile off = p_id up)" for obj
    by (auto simp: order_offer_owner_def order_offer_detail_def split: option.splits)
  from a auth have "OrderListCreateView_get s usr =
      Inr (filter (\<lambda>obj. order_offer_owner s obj = Some (p_id up)) (orders s))"
    by (simp add: OrderListCreateView_get_def OrderListCreateView_get_queryset_def)
  then show "\<exists>os. OrderListCreateView_get s usr = Inr os \<and>
         os = filter (\<lambda>obj. order_offer_owner s obj = Some (p_id up)) (orders s) \<and>
         (\<forall>obj. obj \<in> set os \<longleftrightarrow>
            obj \<in> set (orders s) \<and>
            (\<exists>d off. OfferDetail_objects_get s (ord_offer_detail obj) = Some d \<and>
               find (\<lambda>off. o_id off = d_offer d) (offers s) = Some off \<and>
               o_user_profile off = p_id up))"
    using owner by simp
qed

theorem order_list_scope_witness:
  "OrderListCreateView_get test_db (Some user_no_profile) =
     Inl (PermissionDenied ''User profile not found.'') \<and>
   OrderListCreateView_get test_db (Some user_customer) =
     Inr [\<lparr>ord_id = 1, ord_customer_user = 2, ord_offer_detail = 1,
           ord_status = ''in_progress''\<rparr>] \<and>
   OrderListCreateView_get test_db (Some user_other) = Inr [] \<and>
   OrderListCreateView_get test_db (Some user_business) =
     Inr [\<lparr>ord_id = 1, ord_customer_user = 2, ord_offer_detail = 1,
           ord_status = ''in_progress''\<rparr>]"
proof -
  have np: "is_authenticated (Some user_no_profile) \<and>
      userprofile test_db (Some user_no_profile) = None"
    by (simp add: is_authenticated_def userprofile_def fixture_defs)
  have c: "userprofile test_db (Some user_customer) =
        Some \<lparr>p_id = 2, p_user = 2, p_type = ''customer''\<rparr> \<and>
      p_type \<lparr>p_id = 2, p_user = 2, p_type = ''customer''\<rparr> = ''customer''"
    by (simp add: userprofile_def fixture_defs)
  have o: "userprofile test_db (Some user_other) =
        Some \<lparr>p_id = 3, p_user = 3, p_type = ''customer''\<rparr> \<and>
      p_type \<lparr>p_id = 3, p_user = 3, p_type = ''customer''\<rparr> = ''customer''"
    by (simp add: userprofile_def fixture_defs)
  have b: "userprofile test_db (Some user_business) =
        Some \<lparr>p_id = 1, p_user = 1, p_type = ''business''\<rparr> \<and>
      p_type \<lparr>p_id = 1, p_user = 1, p_type = ''business''\<rparr> = ''business''"
    by (simp add: userprofile_def fixture_defs)
  have own: "order_offer_owner test_db
      \<lparr>ord_id = 1, ord_customer_user = 2, ord_offer_detail = 1, ord_status = ''in_progress''\<rparr> =
      Some 1"
    by (simp add: order_offer_owner_def order_offer_detail_def OfferDetail_objects_get_def
        fixture_defs)
  have ords: "orders test_db = [\<lparr>ord_id = 1, ord_customer_user = 2, ord_offer_detail = 1,
      ord_status = ''in_progress''\<rparr>]"
    by (simp add: fixture_defs)
  note t = order_list_scope [of "Some user_no_profile" test_db]
    order_list_scope [of "Some user_customer" test_db]
    order_list_scope [of "Some user_other" test_db]
    order_list_scope [of "Some user_business" test_db]
  from t(1) np have 1: "OrderListCreateView_get test_db (Some user_no_profile) =
     Inl (PermissionDenied ''User profile not found.'')" by blast
  from t(2) c have 2: "OrderListCreateView_get test_db (Some user_customer) =
     Inr (filter (\<lambda>obj. ord_customer_user obj = 2) (orders test_db))"
    by (metis profile.select_convs(1))
  from t(3) o have 3: "OrderListCreateView_get test_db (Some user_other) =
     Inr (filter (\<lambda>obj. ord_customer_user obj = 3) (orders test_db))"
    by (metis profile.select_convs(1))
  from t(4) b have 4: "OrderListCreateView_get test_db (Some user_business) =
     Inr (filter (\<lambda>obj. order_offer_owner test_db obj = Some 1) (orders test_db))"
    by (metis profile.select_convs(1))
  show ?thesis
    using 1 2 3 4 own by (simp add: ords)
qed

section \<open>Properties of orders\<close>

lemma OfferDetail_objects_get_Some:
  "OfferDetail_objects_get s i = Some d \<Longrightarrow> d_id d = i \<and> d \<in> set (offer_details s)"
  by (auto simp: OfferDetail_objects_get_def find_Some_iff)

lemma OfferDetail_objects_get_None:
  "OfferDetail_objects_get s i = None \<longleftrightarrow> i \<notin> d_id ` set (offer_details s)"
  by (auto simp: OfferDetail_objects_get_def find_None_iff)

text \<open>
  C3. For a requester with a profile, creating an order fails with not-found exactly
  when the submitted detail id matches no row of the detail table, and that is its only
  failure; when the id resolves, one order row is appended that references this detail
  and names the requester's profile as customer.
\<close>

theorem order_create_not_found_iff:
  assumes "userprofile s usr = Some up"
  shows "((\<exists>m. fst (OrderSerializer_create s usr vd) = Inl (NotFound m)) \<longleftrightarrow>
            vd_offer_detail_id vd \<notin> d_id ` set (offer_details s)) \<and>
     (vd_offer_detail_id vd \<notin> d_id ` set (offer_details s) \<longrightarrow>
        OrderSerializer_create s usr vd = (Inl (NotFound ''OfferDetail not found.''), s)) \<and>
     (vd_offer_detail_id vd \<in> d_id ` set (offer_details s) \<longrightarrow>
        (\<exists>row. OrderSerializer_create s usr vd =
             (Inr row, s\<lparr>orders := orders s @ [row], next_order := next_order s + 1\<rparr>) \<and>
           ord_offer_detail row = vd_offer_detail_id vd \<and>
           ord_customer_user row = p_id up \<and>
           order_offer_detail s row = OfferDetail_objects_get s (vd_offer_detail_id vd) \<and>
           order_offer_detail s row \<noteq> None)) \<and>
     (\<forall>data. StrictModelSerializer_to_internal_value data = Inr vd \<longrightarrow>
        OrderListCreateView_post s usr data = OrderSerializer_create s usr vd)"
proof -
  have view: "(\<forall>data. StrictModelSerializer_to_internal_value data = Inr vd \<longrightarrow>
      OrderListCreateView_post s usr data = OrderSerializer_create s usr vd)"
    using userprofile_authenticated [OF assms] by (simp add: OrderListCreateView_post_def)
  have core: "((\<exists>m. fst (OrderSerializer_create s usr vd) = Inl (NotFound m)) \<longleftrightarrow>
            vd_offer_detail_id vd \<notin> d_id ` set (offer_details s)) \<and>
     (vd_offer_detail_id vd \<notin> d_id ` set (offer_details s) \<longrightarrow>
        OrderSerializer_create s usr vd = (Inl (NotFound ''OfferDetail not found.''), s)) \<and>
     (vd_offer_detail_id vd \<in> d_id ` set (offer_details s) \<longrightarrow>
        (\<exists>row. OrderSerializer_create s usr vd =
             (Inr row, s\<lparr>orders := orders s @ [row], next_order := next_order s + 1\<rparr>) \<and>
           ord_offer_detail row = vd_offer_detail_id vd \<and>
           ord_customer_user row = p_id up \<and>
           order_offer_detail s row = OfferDetail_objects_get s (vd_offer_detail_id vd) \<and>
           order_offer_detail s row \<noteq> None))"
  proof (cases "OfferDetail_objects_get s (vd_offer_detail_id vd)")
    case None
    then have out: "vd_offer_detail_id vd \<notin> d_id ` set (offer_details s)"
      by (simp add: OfferDetail_objects_get_None)
    from None assms
    have "OrderSerializer_create s usr vd = (Inl (NotFound ''OfferDetail not found.''), s)"
      by (simp add: OrderSerializer_create_def)
    with out show ?thesis by simp
  next
    case (Some d)
    then have d: "d_id d = vd_offer_detail_id vd" "d \<in> set (offer_details s)"
      using OfferDetail_objects_get_Some by blast+
    then have inn: "vd_offer_detail_id vd \<in> d_id ` set (offer_details s)"
      by force
    define row where "row = \<lparr>ord_id = next_order s, ord_customer_user = p_id up,
        ord_offer_detail = d_id d, ord_status = default_status\<rparr>"
    from Some assms
    have res: "OrderSerializer_create s usr vd =
        (Inr row, s\<lparr>orders := orders s @ [row], next_order := next_order s + 1\<rparr>)"
      by (simp add: OrderSerializer_create_def Order_objects_create_def row_def Let_def)
    have "order_offer_detail s row = OfferDetail_objects_get s (vd_offer_detail_id vd)"
      by (simp add: order_offer_detail_def row_def d)
    with res inn Some d show ?thesis
      by (auto simp: row_def)
  qed
  from core view show ?thesis
    by blast
qed

theorem order_create_not_found_iff_witness:
  "userprofile test_db (Some user_customer) =
     Some \<lparr>p_id = 2, p_user = 2, p_type = ''customer''\<rparr> \<and>
   OrderSerializer_create test_db (Some user_customer)
       \<lparr>vd_offer_detail_id = 99, vd_status = None\<rparr> =
     (Inl (NotFound ''OfferDetail not found.''), test_db) \<and>
   (\<exists>row. fst (OrderSerializer_create test_db (Some user_customer)
       \<lparr>vd_offer_detail_id = 2, vd_status = None\<rparr>) = Inr row \<and>
      ord_offer_detail row = 2 \<and> ord_customer_user row = 2)"
proof -
  have h: "userprofile test_db (Some user_customer) =
      Some \<lparr>p_id = 2, p_user = 2, p_type = ''customer''\<rparr>"
    by (simp add: userprofile_def fixture_defs)
  have ids: "d_id ` set (offer_details test_db) = {1, 2}"
    by (auto simp: fixture_defs)
  from order_create_not_found_iff [OF h, of "\<lparr>vd_offer_detail_id = 99, vd_status = None\<rparr>"]
    order_create_not_found_iff [OF h, of "\<lparr>vd_offer_detail_id = 2, vd_status = None\<rparr>"]
    h ids
  show ?thesis by auto
qed

lemma OfferDetail_objects_get_save:
  assumes "OfferDetail_objects_get s i = Some d" and "d_id det' = d_id d"
  shows "OfferDetail_objects_get (OfferDetail_save s det') i = Some det'"
proof -
  have "find (\<lambda>r. d_id r = i) (map (\<lambda>r. if d_id r = k then det' else r) rows) = Some det'"
    if "find (\<lambda>r. d_id r = i) rows = Some d" and "d_id det' = k" and "k = i" for rows k
    using that by (induction rows) (auto split: if_splits)
  moreover have "d_id d = i"
    using assms(1) OfferDetail_objects_get_Some by blast
  ultimately show ?thesis
    using assms by (simp add: OfferDetail_objects_get_def OfferDetail_save_def)
qed

lemma OfferDetail_objects_get_save_other:
  assumes "d_id det' \<noteq> i"
  shows "OfferDetail_objects_get (OfferDetail_save s det') i = OfferDetail_objects_get s i"
proof -
  have "find (\<lambda>r. d_id r = i) (map (\<lambda>r. if d_id r = k then det' else r) rows) =
      find (\<lambda>r. d_id r = i) rows" if "k \<noteq> i" "d_id det' = k" for rows k
    using that by (induction rows) auto
  then show ?thesis
    using assms by (simp add: OfferDetail_objects_get_def OfferDetail_save_def)
qed

text \<open>
  C4. The price, tier, delivery time, revisions, title and features shown for an order
  are read from the detail row the order references, as that row is in the store at the
  time of reading; the order row holds no copy of them. So once the row has been written
  with new values, be it by a save of the detail or by an offer update that submits an
  entry of the same tier, every read of the order shows the new values: each attribute
  the entry submits is shown as submitted, each other attribute as the row has it.
\<close>

theorem order_fields_follow_detail:
  assumes "order_offer_detail s obj = Some d"
  shows "get_price s obj = Some (d_price d) \<and> get_offer_type s obj = Some (d_offer_type d) \<and>
     get_delivery_time_in_days s obj = Some (d_delivery_time_in_days d) \<and>
     get_revisions s obj = Some (d_revisions d) \<and> get_title s obj = Some (d_title d) \<and>
     get_features s obj = Some (d_features d) \<and>
     (\<forall>det' :: offer_detail. d_id det' = d_id d \<longrightarrow>
        (let s' = OfferDetail_save s det'
         in orders s' = orders s \<and>
            get_price s' obj = Some (d_price det') \<and>
            get_offer_type s' obj = Some (d_offer_type det') \<and>
            get_delivery_time_in_days s' obj = Some (d_delivery_time_in_days det') \<and>
            get_revisions s' obj = Some (d_revisions det') \<and>
            get_title s' obj = Some (d_title det') \<and>
            get_features s' obj = Some (d_features det'))) \<and>
     (\<forall>(inst :: offer) (dp :: detail_patch) dflt t s'.
        dp_offer_type dp = Some t \<and>
        existing_details s (o_id inst) t = Some d \<and>
        snd (OfferCreateSerializer_update s dflt inst
               \<lparr>ou_title = None, ou_description = None, ou_details = Some [dp]\<rparr>) = s' \<longrightarrow>
        orders s' = orders s \<and>
        get_price s' obj = Some (case dp_price dp of Some v \<Rightarrow> v | None \<Rightarrow> d_price d) \<and>
        get_offer_type s' obj = Some t \<and>
        get_delivery_time_in_days s' obj =
          Some (case dp_delivery_time_in_days dp of
                  Some v \<Rightarrow> v
                | None \<Rightarrow> d_delivery_time_in_days d) \<and>
        get_revisions s' obj =
          Some (case dp_revisions dp of Some v \<Rightarrow> v | None \<Rightarrow> d_revisions d) \<and>
        get_title s' obj = Some (case dp_title dp of Some v \<Rightarrow> v | None \<Rightarrow> d_title d) \<and>
        get_features s' obj =
          Some (case dp_features dp of Some v \<Rightarrow> v | None \<Rightarrow> d_features d))"
proof (intro conjI allI impI)
  fix det' :: offer_detail
  assume "d_id det' = d_id d"
  with assms have "order_offer_detail (OfferDetail_save s det') obj = Some det'"
    by (simp add: order_offer_detail_def OfferDetail_objects_get_save)
  moreover have "orders (OfferDetail_save s det') = orders s"
    by (simp add: OfferDetail_save_def)
  ultimately show "let s' = OfferDetail_save s det'
         in orders s' = orders s \<and>
            get_price s' obj = Some (d_price det') \<and>
            get_offer_type s' obj = Some (d_offer_type det') \<and>
            get_delivery_time_in_days s' obj = Some (d_delivery_time_in_days det') \<and>
            get_revisions s' obj = Some (d_revisions det') \<and>
            get_title s' obj = Some (d_title det') \<and>
            get_features s' obj = Some (d_features det')"
    by (simp add: Let_def get_price_def get_offer_type_def get_delivery_time_in_days_def
        get_revisions_def get_title_def get_features_def)
next
  fix inst :: offer and dp :: detail_patch and dflt t s'
  assume a: "dp_offer_type dp = Some t \<and>
        existing_details s (o_id inst) t = Some d \<and>
        snd (OfferCreateSerializer_update s dflt inst
               \<lparr>ou_title = None, ou_description = None, ou_details = Some [dp]\<rparr>) = s'"
  define vd0 where "vd0 = \<lparr>ou_title = None, ou_description = None, ou_details = Some [dp]\<rparr>"
  define inst' where "inst' = set_offer_attrs inst vd0"
  define s1 where "s1 = Offer_save s inst'"
  have s1: "offer_details s1 = offer_details s" "orders s1 = orders s"
    by (simp_all add: s1_def Offer_save_def)
  have oid: "o_id inst' = o_id inst"
    by (simp add: inst'_def set_offer_attrs_def)
  have ex: "existing_details s1 (o_id inst') t = Some d"
    using a s1 by (simp add: existing_details_def details_of_def oid)
  have "OfferCreateSerializer_update s dflt inst vd0 =
      update_details s1 dflt inst' (existing_details s1 (o_id inst')) [dp]"
    by (simp add: OfferCreateSerializer_update_def Let_def s1_def inst'_def vd0_def)
  also have "\<dots> = (Inr inst', OfferDetail_save s1 (set_detail_attrs d dp))"
    using ex a by (simp add: Let_def)
  finally have s': "s' = OfferDetail_save s1 (set_detail_attrs d dp)"
    using a by (simp add: vd0_def)
  have get1: "order_offer_detail s1 obj = Some d"
    using assms s1 by (simp add: order_offer_detail_def OfferDetail_objects_get_def)
  have "d_id (set_detail_attrs d dp) = d_id d"
    by (simp add: set_detail_attrs_def)
  with get1 have "order_offer_detail s' obj = Some (set_detail_attrs d dp)"
    unfolding s' by (simp add: order_offer_detail_def OfferDetail_objects_get_save)
  moreover have "orders s' = orders s"
    by (simp add: s' s1 OfferDetail_save_def)
  moreover have "dp_offer_type dp = Some t"
    using a by simp
  ultimately show "orders s' = orders s"
    "get_price s' obj = Some (case dp_price dp of Some v \<Rightarrow> v | None \<Rightarrow> d_price d)"
    "get_offer_type s' obj = Some t"
    "get_delivery_time_in_days s' obj =
      Some (case dp_delivery_time_in_days dp of
              Some v \<Rightarrow> v
            | None \<Rightarrow> d_delivery_time_in_days d)"
    "get_revisions s' obj =
      Some (case dp_revisions dp of Some v \<Rightarrow> v | None \<Rightarrow> d_revisions d)"
    "get_title s' obj = Some (case dp_title dp of Some v \<Rightarrow> v | None \<Rightarrow> d_title d)"
    "get_features s' obj =
      Some (case dp_features dp of Some v \<Rightarrow> v | None \<Rightarrow> d_features d)"
    by (simp_all add: get_price_def get_offer_type_def get_delivery_time_in_days_def
        get_revisions_def get_title_def get_features_def set_detail_attrs_def)
qed (use assms in \<open>simp_all add: get_price_def get_offer_type_def
    get_delivery_time_in_days_def get_revisions_def get_title_def get_features_def\<close>)

theorem order_fields_follow_detail_witness:
  "order_offer_detail test_db
      \<lparr>ord_id = 1, ord_customer_user = 2, ord_offer_detail = 1, ord_status = ''in_progress''\<rparr> =
     Some detail_basic \<and>
   get_price test_db
      \<lparr>ord_id = 1, ord_customer_user = 2, ord_offer_detail = 1, ord_status = ''in_progress''\<rparr> =
     Some 50 \<and>
   get_price (OfferDetail_save test_db (detail_basic\<lparr>d_price := 75\<rparr>))
      \<lparr>ord_id = 1, ord_customer_user = 2, ord_offer_detail = 1, ord_status = ''in_progress''\<rparr> =
     Some 75 \<and>
   existing_details test_db 1 ''basic'' = Some detail_basic \<and>
   get_price
      (snd (OfferCreateSerializer_update test_db no_defaults
         \<lparr>o_id = 1, o_user_profile = 1, o_title = ''Logo Design'',
           o_description = ''I design a logo''\<rparr>
         \<lparr>ou_title = None, ou_description = None, ou_details = Some [basic_price]\<rparr>))
      \<lparr>ord_id = 1, ord_customer_user = 2, ord_offer_detail = 1, ord_status = ''in_progress''\<rparr> =
     Some 60 \<and>
   get_title
      (snd (OfferCreateSerializer_update test_db no_defaults
         \<lparr>o_id = 1, o_user_profile = 1, o_title = ''Logo Design'',
           o_description = ''I design a logo''\<rparr>
         \<lparr>ou_title = None, ou_description = None, ou_details = Some [basic_price]\<rparr>))
      \<lparr>ord_id = 1, ord_customer_user = 2, ord_offer_detail = 1, ord_status = ''in_progress''\<rparr> =
     Some ''Basic''"
proof -
  let ?o = "\<lparr>ord_id = 1, ord_customer_user = 2, ord_offer_detail = 1,
    ord_status = ''in_progress''\<rparr>"
  let ?i = "\<lparr>o_id = 1, o_user_profile = 1, o_title = ''Logo Design'',
    o_description = ''I design a logo''\<rparr>"
  let ?s' = "snd (OfferCreateSerializer_update test_db no_defaults ?i
    \<lparr>ou_title = None, ou_description = None, ou_details = Some [basic_price]\<rparr>)"
  have h: "order_offer_detail test_db ?o = Some detail_basic"
    by (simp add: order_offer_detail_def OfferDetail_objects_get_def fixture_defs)
  have e: "existing_details test_db (o_id ?i) ''basic'' = Some detail_basic"
    by (simp add: existing_details_def details_of_def fixture_defs)
  have p: "dp_offer_type basic_price = Some ''basic''" "dp_price basic_price = Some 60"
    "dp_title basic_price = None"
    by (simp_all add: basic_price_def)
  note t = order_fields_follow_detail [OF h]
  from t have 1: "get_price test_db ?o = Some (d_price detail_basic)"
    by blast
  from t have "d_id (detail_basic\<lparr>d_price := 75\<rparr>) = d_id detail_basic \<longrightarrow>
      get_price (OfferDetail_save test_db (detail_basic\<lparr>d_price := 75\<rparr>)) ?o =
        Some (d_price (detail_basic\<lparr>d_price := 75\<rparr>))"
    by (metis (no_types))
  then have 2: "get_price (OfferDetail_save test_db (detail_basic\<lparr>d_price := 75\<rparr>)) ?o =
      Some 75"
    by simp
  from t have "dp_offer_type basic_price = Some ''basic'' \<and>
      existing_details test_db (o_id ?i) ''basic'' = Some detail_basic \<and> ?s' = ?s' \<longrightarrow>
      get_price ?s' ?o =
        Some (case dp_price basic_price of Some v \<Rightarrow> v | None \<Rightarrow> d_price detail_basic) \<and>
      get_title ?s' ?o =
        Some (case dp_title basic_price of Some v \<Rightarrow> v | None \<Rightarrow> d_title detail_basic)"
    by blast
  with e p have 3: "get_price ?s' ?o = Some 60" "get_title ?s' ?o = Some (d_title detail_basic)"
    by simp_all
  from e have e': "existing_details test_db 1 ''basic'' = Some detail_basic"
    by simp
  from h e' 1 2 3 show ?thesis
    by (simp add: detail_basic_def)
qed

section \<open>Properties of the single-offer endpoint\<close>

text \<open>
  C2. The claim does not hold of the code: the anonymous GET of the existing offer 1 is
  answered as unauthenticated, because \<^verbatim>\<open>has_permission\<close> of the view's permission
  class refuses every anonymous request. The check of the object would let the anonymous
  read pass, and the same GET by an authenticated account returns the light shape, each
  detail reduced to its id and the link to it. The docstring of \<^verbatim>\<open>OfferDetailView\<close>
  (``Public read (GET)'') and \<^verbatim>\<open>test_offer_detail_public_read\<close> of the repository,
  which expects status 200 for this request, say what the claim says.
\<close>

theorem offer_retrieve_anonymous_unauthenticated:
  "find (\<lambda>off. o_id off = 1) (offers test_db) =
     Some \<lparr>o_id = 1, o_user_profile = 1, o_title = ''Logo Design'',
           o_description = ''I design a logo''\<rparr> \<and>
   OfferDetailView_get test_db None 1 = Inl NotAuthenticated \<and>
   has_object_permission test_db None GET
     \<lparr>o_id = 1, o_user_profile = 1, o_title = ''Logo Design'',
       o_description = ''I design a logo''\<rparr> \<and>
   map_sum id or_details (OfferDetailView_get test_db (Some user_customer) 1) =
     Inr [\<lparr>ld_id = 1, ld_url = Offer_detail_detail 1\<rparr>,
          \<lparr>ld_id = 2, ld_url = Offer_detail_detail 2\<rparr>]"
  by (simp add: OfferDetailView_get_def has_permission_def permission_denied_def
      has_object_permission_def SAFE_METHODS_def OfferListSerializer_def
      OfferDetailLightSerializer_def details_of_def is_authenticated_def fixture_defs)

section \<open>Properties of the statistics\<close>

lemma round1_tenth: "\<exists>k::int. round1 x = rat_of_int k / 10"
  unfolding round1_def Let_def by blast

lemma round1_near: "\<bar>round1 x - x\<bar> \<le> 1 / 20"
proof -
  define y where "y = x * 10"
  define f where "f = \<lfloor>y\<rfloor>"
  define r where "r = y - rat_of_int f"
  have r: "0 \<le> r" "r < 1"
    unfolding r_def f_def by linarith+
  have x: "x = (rat_of_int f + r) / 10"
    unfolding r_def y_def by simp
  have "round1 x = rat_of_int (if r < 1 / 2 then f
      else if 1 / 2 < r then f + 1 else if even f then f else f + 1) / 10"
    unfolding round1_def Let_def r_def f_def y_def by simp
  then show ?thesis
    using r unfolding x by (auto simp: abs_if field_simps split: if_splits)
qed

text \<open>
  C8. The statistics report 0 as average rating when no review exists; otherwise the
  reported value is a multiple of one tenth that lies within one twentieth of the mean
  of all ratings, that is, the mean rounded to one decimal place. The other three
  numbers are the count of reviews, of profiles of type business and of offers.
\<close>

theorem base_info_average_rating:
  "(reviews s = [] \<longrightarrow> average_rating (BaseInfoView_get s) = 0) \<and>
   (reviews s \<noteq> [] \<longrightarrow>
      (\<exists>k::int. average_rating (BaseInfoView_get s) = rat_of_int k / 10) \<and>
      \<bar>average_rating (BaseInfoView_get s) -
         rat_of_int (sum_list (map r_rating (reviews s))) /
           rat_of_int (int (length (reviews s)))\<bar> \<le> 1 / 20) \<and>
   review_count (BaseInfoView_get s) = length (reviews s) \<and>
   business_profile_count (BaseInfoView_get s) =
     card {i. i < length (profiles s) \<and> p_type (profiles s ! i) = ''business''} \<and>
   offer_count (BaseInfoView_get s) = length (offers s)"
proof (intro conjI impI)
  assume ne: "reviews s \<noteq> []"
  define a where "a = rat_of_int (sum_list (map r_rating (reviews s))) /
      rat_of_int (int (length (reviews s)))"
  have avg: "average_rating (BaseInfoView_get s) = (if a \<noteq> 0 then round1 a else 0)"
    using ne by (simp add: BaseInfoView_get_def Avg_rating_def Let_def a_def)
  show "\<exists>k::int. average_rating (BaseInfoView_get s) = rat_of_int k / 10"
  proof (cases "a = 0")
    case True
    then have "average_rating (BaseInfoView_get s) = rat_of_int 0 / 10"
      by (simp add: avg)
    then show ?thesis by blast
  next
    case False
    then show ?thesis
      using round1_tenth [of a] by (simp add: avg)
  qed
  show "\<bar>average_rating (BaseInfoView_get s) -
         rat_of_int (sum_list (map r_rating (reviews s))) /
           rat_of_int (int (length (reviews s)))\<bar> \<le> 1 / 20"
  proof (cases "a = 0")
    case True
    then have "average_rating (BaseInfoView_get s) - a = 0"
      by (simp add: avg)
    then show ?thesis
      unfolding a_def by simp
  next
    case False
    then have "average_rating (BaseInfoView_get s) - a = round1 a - a"
      by (simp add: avg)
    then show ?thesis
      using round1_near [of a] unfolding a_def by simp
  qed
next
  show "business_profile_count (BaseInfoView_get s) =
     card {i. i < length (profiles s) \<and> p_type (profiles s ! i) = ''business''}"
    by (simp add: BaseInfoView_get_def Let_def length_filter_conv_card)
qed (simp_all add: BaseInfoView_get_def Avg_rating_def Let_def)

theorem base_info_average_rating_witness:
  "average_rating (BaseInfoView_get (test_db\<lparr>reviews := []\<rparr>)) = 0 \<and>
   reviews two_reviews_db \<noteq> [] \<and>
   \<bar>average_rating (BaseInfoView_get two_reviews_db) - 13 / 3\<bar> \<le> 1 / 20 \<and>
   average_rating (BaseInfoView_get two_reviews_db) = 43 / 10 \<and>
   review_count (BaseInfoView_get two_reviews_db) = 3 \<and>
   business_profile_count (BaseInfoView_get two_reviews_db) = 2 \<and>
   offer_count (BaseInfoView_get two_reviews_db) = 1"
proof -
  have e: "reviews (test_db\<lparr>reviews := []\<rparr>) = []"
    by simp
  have n: "reviews two_reviews_db \<noteq> []"
    by (simp add: two_reviews_db_def)
  have m: "rat_of_int (sum_list (map r_rating (reviews two_reviews_db))) /
      rat_of_int (int (length (reviews two_reviews_db))) = 13 / 3"
    by (simp add: two_reviews_db_def fixture_defs)
  have fl: "\<lfloor>(130::rat) / 3\<rfloor> = 43"
    by (simp add: floor_eq_iff)
  have v: "average_rating (BaseInfoView_get two_reviews_db) = 43 / 10"
    by (simp add: BaseInfoView_get_def Avg_rating_def round1_def Let_def two_reviews_db_def
        fixture_defs fl)
  have c: "review_count (BaseInfoView_get two_reviews_db) = 3"
      "business_profile_count (BaseInfoView_get two_reviews_db) = 2"
      "offer_count (BaseInfoView_get two_reviews_db) = 1"
    by (simp_all add: BaseInfoView_get_def Let_def two_reviews_db_def fixture_defs)
  from base_info_average_rating [of "test_db\<lparr>reviews := []\<rparr>"]
    base_info_average_rating [of two_reviews_db] e n m v c
  show ?thesis
    by simp
qed

section \<open>Properties of order creation through the view\<close>

lemma map_of_filter_key:
  "k \<noteq> c \<Longrightarrow> map_of (filter (\<lambda>(a, v). a \<noteq> c) data) k = map_of data k"
  by (induction data) auto

lemma unexpected_filter_key:
  "c \<in> set allowed \<Longrightarrow>
     filter (\<lambda>k. k \<notin> set allowed) (map fst (filter (\<lambda>(a, v). a \<noteq> c) data)) =
     filter (\<lambda>k. k \<notin> set allowed) (map fst data)"
  by (induction data) auto

lemma to_internal_value_ignores_customer_user:
  "StrictModelSerializer_to_internal_value (filter (\<lambda>(a, v). a \<noteq> ''customer_user'') data) =
     StrictModelSerializer_to_internal_value data"
proof -
  have c: "''customer_user'' \<in> set OrderSerializer_fields"
    by (simp add: OrderSerializer_fields_def)
  have "validate_status (filter (\<lambda>(a, v). a \<noteq> ''customer_user'') data) =
      validate_status data"
    by (simp add: validate_status_def map_of_filter_key)
  moreover
  have "validate_offer_detail_id (filter (\<lambda>(a, v). a \<noteq> ''customer_user'') data) =
      validate_offer_detail_id data"
    by (simp add: validate_offer_detail_id_def map_of_filter_key)
  ultimately
  have "ModelSerializer_to_internal_value (filter (\<lambda>(a, v). a \<noteq> ''customer_user'') data) =
      ModelSerializer_to_internal_value data"
    by (simp add: ModelSerializer_to_internal_value_def cong: sum.case_cong)
  then show ?thesis
    by (simp add: StrictModelSerializer_to_internal_value_def Let_def
        unexpected_filter_key [OF c])
qed

text \<open>
  C10. Two order-create requests by the same requester on the same store whose bodies
  differ only in a member \<^verbatim>\<open>customer_user\<close> have the same outcome: the same answer
  and the same store afterwards. The customer of a created order is the profile of the
  requester.
\<close>

theorem order_customer_is_requester:
  assumes "filter (\<lambda>(a, v). a \<noteq> ''customer_user'') data =
           filter (\<lambda>(a, v). a \<noteq> ''customer_user'') data'"
  shows "OrderListCreateView_post s usr data = OrderListCreateView_post s usr data' \<and>
     (\<forall>row s'. OrderListCreateView_post s usr data = (Inr row, s') \<longrightarrow>
        (\<exists>up. userprofile s usr = Some up \<and> ord_customer_user row = p_id up \<and>
           orders s' = orders s @ [row]))"
proof
  have "StrictModelSerializer_to_internal_value data =
      StrictModelSerializer_to_internal_value data'"
    using assms to_internal_value_ignores_customer_user [of data]
      to_internal_value_ignores_customer_user [of data'] by simp
  then show "OrderListCreateView_post s usr data = OrderListCreateView_post s usr data'"
    by (simp add: OrderListCreateView_post_def)
next
  show "\<forall>row s'. OrderListCreateView_post s usr data = (Inr row, s') \<longrightarrow>
        (\<exists>up. userprofile s usr = Some up \<and> ord_customer_user row = p_id up \<and>
           orders s' = orders s @ [row])"
    by (auto simp: OrderListCreateView_post_def OrderSerializer_create_def
        Order_objects_create_def Let_def split: if_splits sum.splits option.splits)
qed

theorem order_customer_is_requester_witness:
  "filter (\<lambda>(a, v). a \<noteq> ''customer_user'') [(''offer_detail_id'', JInt 1)] =
     filter (\<lambda>(a, v). a \<noteq> ''customer_user'')
       [(''offer_detail_id'', JInt 1), (''customer_user'', JInt 3)] \<and>
   OrderListCreateView_post test_db (Some user_customer)
       [(''offer_detail_id'', JInt 1), (''customer_user'', JInt 3)] =
     (Inr \<lparr>ord_id = 2, ord_customer_user = 2, ord_offer_detail = 1,
            ord_status = ''in_progress''\<rparr>,
      test_db\<lparr>orders := orders test_db @
          [\<lparr>ord_id = 2, ord_customer_user = 2, ord_offer_detail = 1,
             ord_status = ''in_progress''\<rparr>],
        next_order := 3\<rparr>)"
proof -
  have h: "filter (\<lambda>(a, v). a \<noteq> ''customer_user'') [(''offer_detail_id'', JInt 1)] =
     filter (\<lambda>(a, v). a \<noteq> ''customer_user'')
       [(''offer_detail_id'', JInt 1), (''customer_user'', JInt 3)]"
    by simp
  have p: "OrderListCreateView_post test_db (Some user_customer) [(''offer_detail_id'', JInt 1)] =
     (Inr \<lparr>ord_id = 2, ord_customer_user = 2, ord_offer_detail = 1,
            ord_status = ''in_progress''\<rparr>,
      test_db\<lparr>orders := orders test_db @
          [\<lparr>ord_id = 2, ord_customer_user = 2, ord_offer_detail = 1,
             ord_status = ''in_progress''\<rparr>],
        next_order := 3\<rparr>)"
    by (simp add: OrderListCreateView_post_def is_authenticated_def
        StrictModelSerializer_to_internal_value_def OrderSerializer_fields_def
        ModelSerializer_to_internal_value_def validate_status_def validate_offer_detail_id_def
        OrderSerializer_create_def userprofile_def OfferDetail_objects_get_def
        Order_objects_create_def default_status_def Let_def fixture_defs)
  from order_customer_is_requester [OF h, of test_db "Some user_customer"] h p
  show ?thesis by simp
qed

section \<open>Properties of offer creation\<close>

lemma length_detail_rows [simp]: "length (detail_rows i off dds) = length dds"
  by (induction dds arbitrary: i) auto

lemma d_offer_detail_rows: "r \<in> set (detail_rows i off dds) \<Longrightarrow> d_offer r = off"
  by (induction dds arbitrary: i) (auto simp: new_detail_def)

lemma tier_taken_iff:
  "tier_taken s off t \<longleftrightarrow> (\<exists>r\<in>set (offer_details s). d_offer r = off \<and> d_offer_type r = t)"
  by (simp add: tier_taken_def list_ex_iff)

lemma OfferDetail_objects_create_free:
  assumes "\<not> tier_taken s off (dd_offer_type dd)"
  shows "OfferDetail_objects_create s off dd =
     Inr (new_detail (next_offer_detail s) off dd,
          s\<lparr>offer_details := offer_details s @ [new_detail (next_offer_detail s) off dd],
            next_offer_detail := next_offer_detail s + 1\<rparr>)"
  using assms by (simp add: OfferDetail_objects_create_def Let_def)

lemma tier_taken_after_insert:
  "tier_taken (s\<lparr>offer_details := offer_details s @ [new_detail i off dd],
                 next_offer_detail := n\<rparr>) off t \<longleftrightarrow>
   tier_taken s off t \<or> t = dd_offer_type dd"
  by (auto simp: tier_taken_iff new_detail_def)

lemma create_details_distinct:
  assumes "distinct (map dd_offer_type dds)"
    and "\<forall>dd\<in>set dds. \<not> tier_taken s (o_id off) (dd_offer_type dd)"
  shows "create_details s off dds =
     (Inr off, s\<lparr>offer_details := offer_details s @ detail_rows (next_offer_detail s) (o_id off) dds,
                 next_offer_detail := next_offer_detail s + int (length dds)\<rparr>)"
  using assms
proof (induction dds arbitrary: s)
  case Nil
  then show ?case by simp
next
  case (Cons dd rest)
  define s1 where "s1 = s\<lparr>offer_details := offer_details s @
      [new_detail (next_offer_detail s) (o_id off) dd],
    next_offer_detail := next_offer_detail s + 1\<rparr>"
  from Cons.prems have free: "\<not> tier_taken s (o_id off) (dd_offer_type dd)"
    by simp
  have step: "create_details s off (dd # rest) = create_details s1 off rest"
    by (simp add: OfferDetail_objects_create_free [OF free] s1_def)
  have "\<forall>x\<in>set rest. \<not> tier_taken s1 (o_id off) (dd_offer_type x)"
    using Cons.prems unfolding s1_def tier_taken_after_insert by (auto simp: image_iff)
  moreover have "distinct (map dd_offer_type rest)"
    using Cons.prems by simp
  ultimately have "create_details s1 off rest =
     (Inr off, s1\<lparr>offer_details := offer_details s1 @
         detail_rows (next_offer_detail s1) (o_id off) rest,
       next_offer_detail := next_offer_detail s1 + int (length rest)\<rparr>)"
    using Cons.IH [of s1] by blast
  then show ?case
    unfolding step by (simp add: s1_def)
qed

lemma create_details_duplicate:
  assumes "distinct (map dd_offer_type pre)"
    and "\<forall>x\<in>set pre. \<not> tier_taken s (o_id off) (dd_offer_type x)"
    and "tier_taken s (o_id off) (dd_offer_type dd) \<or>
         dd_offer_type dd \<in> set (map dd_offer_type pre)"
  shows "create_details s off (pre @ dd # post) =
     (Inl (ValidationError ''Create Detail failed.''),
      s\<lparr>offer_details := offer_details s @ detail_rows (next_offer_detail s) (o_id off) pre,
        next_offer_detail := next_offer_detail s + int (length pre)\<rparr>)"
  using assms
proof (induction pre arbitrary: s)
  case Nil
  then show ?case
    by (simp add: OfferDetail_objects_create_def)
next
  case (Cons x rest)
  define s1 where "s1 = s\<lparr>offer_details := offer_details s @
      [new_detail (next_offer_detail s) (o_id off) x],
    next_offer_detail := next_offer_detail s + 1\<rparr>"
  from Cons.prems have free: "\<not> tier_taken s (o_id off) (dd_offer_type x)"
    by simp
  have step: "create_details s off ((x # rest) @ dd # post) =
      create_details s1 off (rest @ dd # post)"
    by (simp add: OfferDetail_objects_create_free [OF free] s1_def)
  have "\<forall>y\<in>set rest. \<not> tier_taken s1 (o_id off) (dd_offer_type y)"
    using Cons.prems unfolding s1_def tier_taken_after_insert by (auto simp: image_iff)
  moreover have "distinct (map dd_offer_type rest)"
    using Cons.prems by simp
  moreover have "tier_taken s1 (o_id off) (dd_offer_type dd) \<or>
      dd_offer_type dd \<in> set (map dd_offer_type rest)"
    using Cons.prems(3) unfolding s1_def tier_taken_after_insert by (auto simp: image_iff)
  ultimately have "create_details s1 off (rest @ dd # post) =
     (Inl (ValidationError ''Create Detail failed.''),
      s1\<lparr>offer_details := offer_details s1 @
          detail_rows (next_offer_detail s1) (o_id off) rest,
        next_offer_detail := next_offer_detail s1 + int (length rest)\<rparr>)"
    using Cons.IH [of s1] by blast
  then show ?case
    unfolding step by (simp add: s1_def)
qed

lemma not_distinct_map_decomp:
  assumes "\<not> distinct (map f xs)"
  shows "\<exists>pre x post. xs = pre @ x # post \<and> distinct (map f pre) \<and> f x \<in> set (map f pre)"
proof -
  from assms obtain as y bs where
    y: "y \<in> set as" and as: "distinct as" and eq: "map f xs = as @ y # bs"
    unfolding not_distinct_conv_prefix by auto
  from eq obtain pre rest where
    xs: "xs = pre @ rest" and pre: "map f pre = as" and rest: "map f rest = y # bs"
    by (auto simp: map_eq_append_conv)
  from rest obtain x post where "rest = x # post" "f x = y"
    by (auto simp: map_eq_Cons_conv)
  with xs pre y as have "xs = pre @ x # post \<and> distinct (map f pre) \<and>
      f x \<in> set (map f pre)"
    by auto
  then show ?thesis
    by blast
qed

lemma tier_free_for_new_offer:
  assumes "\<forall>r\<in>set (offer_details s). d_offer r \<noteq> next_offer s"
  shows "\<not> tier_taken (snd (Offer_objects_create s owner title description)) (next_offer s) t"
  using assms by (auto simp: tier_taken_iff Offer_objects_create_def Let_def)

lemma OfferListCreateView_create_business:
  assumes "userprofile s usr = Some up" and "p_type up = ''business''"
  shows "OfferListCreateView_create s usr vd = OfferCreateSerializer_create s usr vd"
  using assms userprofile_authenticated [OF assms(1)]
  by (simp add: OfferListCreateView_create_def PublicReadBusinessWrite_has_permission_def
      SAFE_METHODS_def)

lemma OfferCreateSerializer_create_duplicate:
  assumes "userprofile s usr = Some up"
    and "\<forall>r\<in>set (offer_details s). d_offer r \<noteq> next_offer s"
    and "\<not> distinct (map dd_offer_type (od_details vd))"
  shows "\<exists>pre dd post.
     od_details vd = pre @ dd # post \<and> pre \<noteq> [] \<and> distinct (map dd_offer_type pre) \<and>
     dd_offer_type dd \<in> set (map dd_offer_type pre) \<and>
     OfferCreateSerializer_create s usr vd =
       (Inl (ValidationError ''Create Detail failed.''),
        s\<lparr>offers := offers s @
             [\<lparr>o_id = next_offer s, o_user_profile = p_id up, o_title = od_title vd,
                o_description = od_description vd\<rparr>],
           next_offer := next_offer s + 1,
           offer_details := offer_details s @
             detail_rows (next_offer_detail s) (next_offer s) pre,
           next_offer_detail := next_offer_detail s + int (length pre)\<rparr>)"
proof -
  from assms(3) obtain pre dd post where
    dec: "od_details vd = pre @ dd # post" and dis: "distinct (map dd_offer_type pre)"
    and rep: "dd_offer_type dd \<in> set (map dd_offer_type pre)"
    using not_distinct_map_decomp by blast
  from rep have ne: "pre \<noteq> []"
    by auto
  define off where "off = \<lparr>o_id = next_offer s, o_user_profile = p_id up,
    o_title = od_title vd, o_description = od_description vd\<rparr>"
  define s1 where "s1 = s\<lparr>offers := offers s @ [off], next_offer := next_offer s + 1\<rparr>"
  have c: "Offer_objects_create s (p_id up) (od_title vd) (od_description vd) = (off, s1)"
    by (simp add: Offer_objects_create_def Let_def off_def s1_def)
  have free: "\<forall>x\<in>set pre. \<not> tier_taken s1 (o_id off) (dd_offer_type x)"
    using tier_free_for_new_offer [OF assms(2), of "p_id up" "od_title vd" "od_description vd"]
    by (simp add: c off_def)
  have "OfferCreateSerializer_create s usr vd = create_details s1 off (pre @ dd # post)"
    using assms(1) by (simp add: OfferCreateSerializer_create_def c dec)
  also have "\<dots> = (Inl (ValidationError ''Create Detail failed.''),
      s1\<lparr>offer_details := offer_details s1 @ detail_rows (next_offer_detail s1) (o_id off) pre,
        next_offer_detail := next_offer_detail s1 + int (length pre)\<rparr>)"
    using dis free rep by (intro create_details_duplicate) auto
  finally show ?thesis
    using dec ne dis rep by (auto simp: s1_def off_def)
qed

text \<open>
  C1, as the claim states it, fails: a POST by the business account with two details of
  tier basic is answered with a validation error, and yet the store afterwards holds the
  new offer 2 and the first of the two details, row 3.
\<close>

theorem offer_create_not_atomic_counterexample:
  "fst (OfferListCreateView_create test_db (Some user_business) duplicate_basic) =
     Inl (ValidationError ''Create Detail failed.'') \<and>
   offers (snd (OfferListCreateView_create test_db (Some user_business) duplicate_basic)) =
     offers test_db @
       [\<lparr>o_id = 2, o_user_profile = 1, o_title = ''New Offer'', o_description = ''desc''\<rparr>] \<and>
   offer_details (snd (OfferListCreateView_create test_db (Some user_business) duplicate_basic)) =
     offer_details test_db @
       [\<lparr>d_id = 3, d_offer = 2, d_title = ''Basic'', d_revisions = 1,
          d_delivery_time_in_days = 3, d_price = 10, d_features = [''x''],
          d_offer_type = ''basic''\<rparr>]"
  by (simp add: OfferListCreateView_create_def PublicReadBusinessWrite_has_permission_def
      SAFE_METHODS_def is_authenticated_def OfferCreateSerializer_create_def userprofile_def
      Offer_objects_create_def OfferDetail_objects_create_def tier_taken_def new_detail_def
      Let_def duplicate_basic_def fixture_defs)

text \<open>
  C1, amended. When the nested details of an offer-create request by an authenticated
  business profile violate tier uniqueness, the create fails with a validation error at
  the first detail that repeats a tier; nothing is rolled back: the parent offer and the
  details in front of the repeating one (there is at least one) stay persisted, the
  repeating detail and those behind it are not written.
\<close>

theorem offer_create_duplicate_tier:
  assumes "userprofile s usr = Some up" and "p_type up = ''business''"
    and "\<forall>r\<in>set (offer_details s). d_offer r \<noteq> next_offer s"
    and "\<not> distinct (map dd_offer_type (od_details vd))"
  shows "\<exists>pre dd post.
     od_details vd = pre @ dd # post \<and> pre \<noteq> [] \<and> distinct (map dd_offer_type pre) \<and>
     dd_offer_type dd \<in> set (map dd_offer_type pre) \<and>
     OfferListCreateView_create s usr vd =
       (Inl (ValidationError ''Create Detail failed.''),
        s\<lparr>offers := offers s @
             [\<lparr>o_id = next_offer s, o_user_profile = p_id up, o_title = od_title vd,
                o_description = od_description vd\<rparr>],
           next_offer := next_offer s + 1,
           offer_details := offer_details s @
             detail_rows (next_offer_detail s) (next_offer s) pre,
           next_offer_detail := next_offer_detail s + int (length pre)\<rparr>)"
  using OfferCreateSerializer_create_duplicate [OF assms(1,3,4)]
  unfolding OfferListCreateView_create_business [OF assms(1,2)] .

theorem offer_create_duplicate_tier_witness:
  "userprofile test_db (Some user_business) =
     Some \<lparr>p_id = 1, p_user = 1, p_type = ''business''\<rparr> \<and>
   list_all (\<lambda>r. d_offer r \<noteq> next_offer test_db) (offer_details test_db) \<and>
   \<not> distinct (map dd_offer_type (od_details duplicate_basic)) \<and>
   fst (OfferListCreateView_create test_db (Some user_business) duplicate_basic) =
     Inl (ValidationError ''Create Detail failed.'') \<and>
   offers (snd (OfferListCreateView_create test_db (Some user_business) duplicate_basic)) =
     offers test_db @
       [\<lparr>o_id = 2, o_user_profile = 1, o_title = ''New Offer'', o_description = ''desc''\<rparr>]"
proof -
  have h1: "userprofile test_db (Some user_business) =
      Some \<lparr>p_id = 1, p_user = 1, p_type = ''business''\<rparr>"
    by (simp add: userprofile_def fixture_defs)
  have b: "p_type \<lparr>p_id = 1, p_user = 1, p_type = ''business''\<rparr> = ''business''"
    by simp
  have l2: "list_all (\<lambda>r. d_offer r \<noteq> next_offer test_db) (offer_details test_db)"
    by (simp add: fixture_defs)
  then have h2: "\<forall>r\<in>set (offer_details test_db). d_offer r \<noteq> next_offer test_db"
    by (simp add: list_all_iff)
  have h3: "\<not> distinct (map dd_offer_type (od_details duplicate_basic))"
    by (simp add: duplicate_basic_def)
  from offer_create_duplicate_tier [OF h1 b h2 h3]
  obtain pre where "OfferListCreateView_create test_db (Some user_business) duplicate_basic =
       (Inl (ValidationError ''Create Detail failed.''),
        test_db\<lparr>offers := offers test_db @
             [\<lparr>o_id = next_offer test_db, o_user_profile = p_id \<lparr>p_id = 1, p_user = 1, p_type = ''business''\<rparr>,
                o_title = od_title duplicate_basic,
                o_description = od_description duplicate_basic\<rparr>],
           next_offer := next_offer test_db + 1,
           offer_details := offer_details test_db @
             detail_rows (next_offer_detail test_db) (next_offer test_db) pre,
           next_offer_detail := next_offer_detail test_db + int (length pre)\<rparr>)"
    by blast
  then have "fst (OfferListCreateView_create test_db (Some user_business) duplicate_basic) =
       Inl (ValidationError ''Create Detail failed.'')"
    and "offers (snd (OfferListCreateView_create test_db (Some user_business) duplicate_basic)) =
       offers test_db @
       [\<lparr>o_id = 2, o_user_profile = 1, o_title = ''New Offer'', o_description = ''desc''\<rparr>]"
    by (simp_all add: duplicate_basic_def test_db_def)
  with h1 l2 h3 show ?thesis
    by blast
qed

text \<open>
  C9, as the claim states it, fails: a create by the business account with an empty list
  of details is accepted, and the offer 2 it creates has no detail.
\<close>

theorem offer_create_empty_details_counterexample:
  "od_details no_details = [] \<and>
   fst (OfferCreateSerializer_create test_db (Some user_business) no_details) =
     Inr \<lparr>o_id = 2, o_user_profile = 1, o_title = ''New Offer'', o_description = ''desc''\<rparr> \<and>
   details_of (snd (OfferCreateSerializer_create test_db (Some user_business) no_details)) 2 = []"
  by (simp add: OfferCreateSerializer_create_def userprofile_def Offer_objects_create_def
      details_of_def Let_def no_details_def fixture_defs)

text \<open>
  C9, amended. An offer-create request by a requester with a profile succeeds whenever
  its nested details carry pairwise distinct tiers, whatever their number, zero
  included: the created offer has exactly the submitted details. A create request whose
  details list is empty is accepted and creates an offer without details, whose minimum
  price and minimum delivery time are null.
\<close>

theorem offer_create_any_number_of_details:
  assumes "userprofile s usr = Some up"
    and "\<forall>r\<in>set (offer_details s). d_offer r \<noteq> next_offer s"
    and "distinct (map dd_offer_type (od_details vd))"
  shows "\<exists>off s'.
     OfferCreateSerializer_create s usr vd = (Inr off, s') \<and>
     o_id off = next_offer s \<and> o_user_profile off = p_id up \<and>
     offers s' = offers s @ [off] \<and>
     details_of s' (o_id off) =
       detail_rows (next_offer_detail s) (o_id off) (od_details vd) \<and>
     length (details_of s' (o_id off)) = length (od_details vd) \<and>
     (od_details vd = [] \<longrightarrow>
        details_of s' (o_id off) = [] \<and> get_min_price s' None off = None \<and>
        get_min_delivery_time s' None off = None)"
proof -
  define off where "off = \<lparr>o_id = next_offer s, o_user_profile = p_id up,
    o_title = od_title vd, o_description = od_description vd\<rparr>"
  define s1 where "s1 = s\<lparr>offers := offers s @ [off], next_offer := next_offer s + 1\<rparr>"
  define rows where "rows = detail_rows (next_offer_detail s) (o_id off) (od_details vd)"
  define s' where "s' = s1\<lparr>offer_details := offer_details s1 @ rows,
    next_offer_detail := next_offer_detail s1 + int (length (od_details vd))\<rparr>"
  have c: "Offer_objects_create s (p_id up) (od_title vd) (od_description vd) = (off, s1)"
    by (simp add: Offer_objects_create_def Let_def off_def s1_def)
  have free: "\<forall>x\<in>set (od_details vd). \<not> tier_taken s1 (o_id off) (dd_offer_type x)"
    using tier_free_for_new_offer [OF assms(2), of "p_id up" "od_title vd" "od_description vd"]
    by (simp add: c off_def)
  have "OfferCreateSerializer_create s usr vd = create_details s1 off (od_details vd)"
    using assms(1) by (simp add: OfferCreateSerializer_create_def c)
  also have "\<dots> = (Inr off, s')"
    using create_details_distinct [OF assms(3) free]
    by (simp add: s'_def rows_def s1_def)
  finally have res: "OfferCreateSerializer_create s usr vd = (Inr off, s')" .
  have old: "filter (\<lambda>r. d_offer r = o_id off) (offer_details s) = []"
    using assms(2) by (auto simp: filter_empty_conv off_def)
  have new: "filter (\<lambda>r. d_offer r = o_id off) rows = rows"
    by (auto simp: filter_id_conv rows_def dest: d_offer_detail_rows)
  have det: "details_of s' (o_id off) = rows"
    by (simp add: details_of_def s'_def s1_def old new)
  have len: "length (details_of s' (o_id off)) = length (od_details vd)"
    by (simp add: det rows_def)
  have emp: "details_of s' (o_id off) = [] \<and> get_min_price s' None off = None \<and>
      get_min_delivery_time s' None off = None" if "od_details vd = []"
    using that by (simp add: det rows_def get_min_price_def get_min_delivery_time_def)
  have "o_id off = next_offer s" "o_user_profile off = p_id up" "offers s' = offers s @ [off]"
    by (simp_all add: off_def s'_def s1_def)
  with res det len emp show ?thesis
    unfolding rows_def by blast
qed

theorem offer_create_any_number_of_details_witness:
  "userprofile test_db (Some user_business) =
     Some \<lparr>p_id = 1, p_user = 1, p_type = ''business''\<rparr> \<and>
   list_all (\<lambda>r. d_offer r \<noteq> next_offer test_db) (offer_details test_db) \<and>
   distinct (map dd_offer_type (od_details no_details)) \<and>
   o_id (projr (fst (OfferCreateSerializer_create test_db (Some user_business) no_details))) = 2 \<and>
   \<not> isl (fst (OfferCreateSerializer_create test_db (Some user_business) no_details)) \<and>
   get_min_price (snd (OfferCreateSerializer_create test_db (Some user_business) no_details))
     None (projr (fst (OfferCreateSerializer_create test_db (Some user_business) no_details))) =
     None"
proof -
  have h1: "userprofile test_db (Some user_business) =
      Some \<lparr>p_id = 1, p_user = 1, p_type = ''business''\<rparr>"
    by (simp add: userprofile_def fixture_defs)
  have l2: "list_all (\<lambda>r. d_offer r \<noteq> next_offer test_db) (offer_details test_db)"
    by (simp add: fixture_defs)
  then have h2: "\<forall>r\<in>set (offer_details test_db). d_offer r \<noteq> next_offer test_db"
    by (simp add: list_all_iff)
  have h3: "distinct (map dd_offer_type (od_details no_details))"
    by (simp add: no_details_def)
  have e: "od_details no_details = []"
    by (simp add: no_details_def)
  from offer_create_any_number_of_details [OF h1 h2 h3] e
  obtain off s' where
    "OfferCreateSerializer_create test_db (Some user_business) no_details = (Inr off, s')"
    "o_id off = next_offer test_db" "get_min_price s' None off = None"
    by blast
  then have "o_id (projr (fst (OfferCreateSerializer_create test_db (Some user_business)
        no_details))) = 2"
    "\<not> isl (fst (OfferCreateSerializer_create test_db (Some user_business) no_details))"
    "get_min_price (snd (OfferCreateSerializer_create test_db (Some user_business) no_details))
      None (projr (fst (OfferCreateSerializer_create test_db (Some user_business) no_details))) =
      None"
    by (simp_all add: test_db_def)
  with h1 l2 h3 show ?thesis
    by blast
qed

section \<open>Properties of offer update\<close>

lemma set_detail_attrs_sel [simp]:
  "d_id (set_detail_attrs r dp) = d_id r"
  "d_offer (set_detail_attrs r dp) = d_offer r"
  "d_offer_type (set_detail_attrs r dp) =
     (case dp_offer_type dp of None \<Rightarrow> d_offer_type r | Some t \<Rightarrow> t)"
  by (simp_all add: set_detail_attrs_def)

lemma same_key_same_row:
  assumes "distinct (map f rows)" and "r \<in> set rows" and "r' \<in> set rows" and "f r = f r'"
  shows "r = r'"
  using assms by (meson distinct_map inj_onD)

lemma OfferDetail_save_sel [simp]:
  "offer_details (OfferDetail_save s det) =
     map (\<lambda>r. if d_id r = d_id det then det else r) (offer_details s)"
  "next_offer_detail (OfferDetail_save s det) = next_offer_detail s"
  by (simp_all add: OfferDetail_save_def)

lemma save_keeps_keys:
  assumes "distinct (map d_id rows)" and "r0 \<in> set rows"
    and "dp_offer_type dp = Some (d_offer_type r0)"
  shows "map d_id (map (\<lambda>r. if d_id r = d_id r0 then set_detail_attrs r0 dp else r) rows) =
           map d_id rows"
    and "map (\<lambda>r. (d_offer r, d_offer_type r))
           (map (\<lambda>r. if d_id r = d_id r0 then set_detail_attrs r0 dp else r) rows) =
         map (\<lambda>r. (d_offer r, d_offer_type r)) rows"
proof -
  show "map d_id (map (\<lambda>r. if d_id r = d_id r0 then set_detail_attrs r0 dp else r) rows) =
      map d_id rows"
    by simp
  have eq: "r = r0" if "r \<in> set rows" "d_id r = d_id r0" for r
    using same_key_same_row [OF assms(1) that(1) assms(2) that(2)] .
  have "(d_offer (if d_id r = d_id r0 then set_detail_attrs r0 dp else r),
         d_offer_type (if d_id r = d_id r0 then set_detail_attrs r0 dp else r)) =
        (d_offer r, d_offer_type r)" if "r \<in> set rows" for r
    using eq [OF that] assms(3) by (cases "d_id r = d_id r0") auto
  then show "map (\<lambda>r. (d_offer r, d_offer_type r))
           (map (\<lambda>r. if d_id r = d_id r0 then set_detail_attrs r0 dp else r) rows) =
         map (\<lambda>r. (d_offer r, d_offer_type r)) rows"
    by (simp add: o_def)
qed

lemma save_consistent:
  assumes "details_consistent s" and "r0 \<in> set (offer_details s)"
    and "dp_offer_type dp = Some (d_offer_type r0)"
  shows "details_consistent (OfferDetail_save s (set_detail_attrs r0 dp))"
proof -
  from assms(1) have d: "distinct (map d_id (offer_details s))"
    by (simp add: details_consistent_def)
  note k = save_keeps_keys [OF d assms(2,3)]
  have la: "list_all (\<lambda>r. d_id r < next_offer_detail s)
      (map (\<lambda>r. if d_id r = d_id r0 then set_detail_attrs r0 dp else r) (offer_details s))"
    using assms(1) by (auto simp: details_consistent_def list_all_iff)
  have "distinct (map d_id (offer_details s))"
    "distinct (map (\<lambda>r. (d_offer r, d_offer_type r)) (offer_details s))"
    using assms(1) by (simp_all add: details_consistent_def)
  with la show ?thesis
    unfolding details_consistent_def OfferDetail_save_sel set_detail_attrs_sel(1) k
    by blast
qed

lemma save_tier_taken:
  assumes "details_consistent s" and "r0 \<in> set (offer_details s)"
    and "dp_offer_type dp = Some (d_offer_type r0)"
  shows "tier_taken (OfferDetail_save s (set_detail_attrs r0 dp)) off t = tier_taken s off t"
proof -
  from assms(1) have d: "distinct (map d_id (offer_details s))"
    by (simp add: details_consistent_def)
  have taken: "tier_taken s' off t \<longleftrightarrow>
      (off, t) \<in> set (map (\<lambda>r. (d_offer r, d_offer_type r)) (offer_details s'))" for s'
    by (auto simp: tier_taken_iff)
  have "map (\<lambda>r. (d_offer r, d_offer_type r))
      (offer_details (OfferDetail_save s (set_detail_attrs r0 dp))) =
      map (\<lambda>r. (d_offer r, d_offer_type r)) (offer_details s)"
    using save_keeps_keys(2) [OF d assms(2,3)] by (simp only: OfferDetail_save_sel
        set_detail_attrs_sel(1))
  then show ?thesis
    by (simp only: taken)
qed

lemma save_snapshot:
  assumes "snapshot_of s off E ex" and "details_consistent s"
    and "dp_offer_type dp = Some t" and "ex t = Some r0"
  shows "snapshot_of (OfferDetail_save s (set_detail_attrs r0 dp)) off E
           (ex(t \<mapsto> set_detail_attrs r0 dp))"
    and "r0 \<in> set (offer_details s)" and "d_offer r0 = off"
    and "d_offer_type r0 = t" and "t \<in> E"
proof -
  let ?det = "set_detail_attrs r0 dp"
  let ?rows' = "map (\<lambda>r. if d_id r = d_id r0 then ?det else r) (offer_details s)"
  from assms(1) have snap: "\<And>t. t \<in> E \<Longrightarrow>
      \<exists>r\<in>set (offer_details s). ex t = Some r \<and> d_offer r = off \<and> d_offer_type r = t"
    and out: "\<And>t. t \<notin> E \<Longrightarrow> ex t = None"
    unfolding snapshot_of_def by metis+
  from out assms(4) show inE: "t \<in> E"
    by force
  from snap [OF inE] assms(4)
  show r0: "r0 \<in> set (offer_details s)" "d_offer r0 = off" "d_offer_type r0 = t"
    by auto
  from assms(2) have ids: "distinct (map d_id (offer_details s))"
    by (simp add: details_consistent_def)
  have here: "?det \<in> set ?rows'"
    using r0(1) by (auto simp: image_iff intro!: bexI [of _ r0])
  have other: "r \<in> set ?rows'"
    if "r \<in> set (offer_details s)" "d_offer_type r \<noteq> t" for r
  proof -
    from that r0 have "r \<noteq> r0" by auto
    with same_key_same_row [OF ids that(1) r0(1)] have "d_id r \<noteq> d_id r0"
      by blast
    with that(1) show ?thesis
      by (auto simp: image_iff intro!: bexI [of _ r])
  qed
  have "\<exists>r\<in>set ?rows'. (ex(t \<mapsto> ?det)) u = Some r \<and> d_offer r = off \<and> d_offer_type r = u"
    if "u \<in> E" for u
  proof (cases "u = t")
    case True
    with here r0 assms(3) show ?thesis
      by (intro bexI [of _ ?det]) simp_all
  next
    case False
    from snap [OF that] obtain r where r: "r \<in> set (offer_details s)" "ex u = Some r"
      "d_offer r = off" "d_offer_type r = u"
      by blast
    with False other [of r] show ?thesis
      by (intro bexI [of _ r]) simp_all
  qed
  moreover have "(ex(t \<mapsto> ?det)) u = None" if "u \<notin> E" for u
    using that inE out by auto
  ultimately show "snapshot_of (OfferDetail_save s ?det) off E (ex(t \<mapsto> ?det))"
    unfolding snapshot_of_def OfferDetail_save_sel by auto
qed

lemma insert_consistent:
  assumes "details_consistent s" and "\<not> tier_taken s off (dd_offer_type dd)"
  shows "details_consistent
     (s\<lparr>offer_details := offer_details s @ [new_detail (next_offer_detail s) off dd],
        next_offer_detail := next_offer_detail s + 1\<rparr>)"
  using assms
  by (fastforce simp: details_consistent_def list_all_iff tier_taken_iff new_detail_def)

lemma insert_snapshot:
  assumes "snapshot_of s off E ex"
  shows "snapshot_of (s\<lparr>offer_details := offer_details s @ [x], next_offer_detail := n\<rparr>)
     off E ex"
  using assms unfolding snapshot_of_def by (auto split: if_splits)

lemma merged_row_Nil [simp]: "merged_row off [] r = r"
  by (simp add: merged_row_def)

lemma merged_row_Cons:
  "merged_row off (dp # rest) r =
     (if d_offer r = off \<and> dp_offer_type dp = Some (d_offer_type r)
      then merged_row off rest (set_detail_attrs r dp)
      else merged_row off rest r)"
  by (simp add: merged_row_def)

lemma merged_rows_after_save:
  assumes "details_consistent s" and "r0 \<in> set (offer_details s)" and "d_offer r0 = off"
    and "dp_offer_type dp = Some (d_offer_type r0)"
  shows "map (merged_row off rest) (offer_details (OfferDetail_save s (set_detail_attrs r0 dp))) =
     map (merged_row off (dp # rest)) (offer_details s)"
proof -
  from assms(1) have ids: "distinct (map d_id (offer_details s))"
    and keys: "distinct (map (\<lambda>r. (d_offer r, d_offer_type r)) (offer_details s))"
    by (simp_all add: details_consistent_def)
  have "merged_row off rest (if d_id r = d_id r0 then set_detail_attrs r0 dp else r) =
      merged_row off (dp # rest) r" if r: "r \<in> set (offer_details s)" for r
  proof (cases "d_id r = d_id r0")
    case True
    with same_key_same_row [OF ids r assms(2)] have "r = r0"
      by blast
    with assms(3,4) show ?thesis
      by (simp add: merged_row_Cons)
  next
    case False
    then have "r \<noteq> r0" by auto
    with same_key_same_row [OF keys r assms(2)]
    have "d_offer r \<noteq> off \<or> d_offer_type r \<noteq> d_offer_type r0"
      using assms(3) by auto
    with False assms(4) show ?thesis
      by (auto simp: merged_row_Cons)
  qed
  then show ?thesis
    by simp
qed

lemma merged_rows_after_insert:
  assumes "\<not> tier_taken s off (dd_offer_type dd)"
    and "dp_offer_type dp = None \<or> dp_offer_type dp = Some (dd_offer_type dd)"
    and "\<forall>x\<in>set rest. dp_offer_type x \<noteq> Some (dd_offer_type dd)"
  shows "map (merged_row off rest) (offer_details s @ [new_detail i off dd]) =
     map (merged_row off (dp # rest)) (offer_details s) @ [new_detail i off dd]"
proof -
  have "merged_row off rest r = merged_row off (dp # rest) r"
    if "r \<in> set (offer_details s)" for r
  proof -
    from assms(1) that have "d_offer r \<noteq> off \<or> d_offer_type r \<noteq> dd_offer_type dd"
      by (auto simp: tier_taken_iff)
    with assms(2) show ?thesis
      by (auto simp: merged_row_Cons)
  qed
  moreover have "filter (\<lambda>x. dp_offer_type x = Some (dd_offer_type dd)) rest = []"
    using assms(3) by (simp add: filter_empty_conv)
  then have "merged_row off rest (new_detail i off dd) = new_detail i off dd"
    by (simp add: merged_row_def new_detail_def)
  ultimately show ?thesis
    by simp
qed

lemma save_then_set [simp]:
  "(OfferDetail_save s det)\<lparr>offer_details := rows, next_offer_detail := n\<rparr> =
     s\<lparr>offer_details := rows, next_offer_detail := n\<rparr>"
  by (simp add: OfferDetail_save_def)

lemma kwargs_row_tier:
  assumes "kwargs_row dflt dp = Some dd"
  shows "dp_offer_type dp = None \<or> dp_offer_type dp = Some (dd_offer_type dd)"
  using assms
  by (auto simp: kwargs_row_def or_default_def split: option.splits prod.splits)

lemma update_details_save_step:
  assumes "dp_offer_type dp = Some t" and "ex t = Some r0"
  shows "update_details s dflt inst ex (dp # rest) =
     update_details (OfferDetail_save s (set_detail_attrs r0 dp)) dflt inst
       (ex(t \<mapsto> set_detail_attrs r0 dp)) rest"
  using assms by (simp add: Let_def)

lemma update_details_insert_step:
  assumes "\<And>t. dp_offer_type dp = Some t \<Longrightarrow> ex t = None"
  shows "update_details s dflt inst ex (dp # rest) =
     (case kwargs_row dflt dp of
        None \<Rightarrow> (Inl (ValidationError ''Create Detail failed.''), s)
      | Some dd \<Rightarrow>
          if tier_taken s (o_id inst) (dd_offer_type dd)
          then (Inl (ValidationError ''Create Detail failed.''), s)
          else update_details
                 (s\<lparr>offer_details := offer_details s @
                      [new_detail (next_offer_detail s) (o_id inst) dd],
                    next_offer_detail := next_offer_detail s + 1\<rparr>) dflt inst ex rest)"
  using assms
  by (cases "dp_offer_type dp")
    (simp_all add: OfferDetail_objects_create_kwargs_def OfferDetail_objects_create_def Let_def
      split: option.splits)


lemma in_map_filter:
  "x \<in> set xs \<Longrightarrow> f x = Some y \<Longrightarrow> y \<in> set (List.map_filter f xs)"
  by (induction xs) (auto split: option.splits)

lemma entries_outside_Cons:
  "entries_outside E (dp # rest) =
     (if (case dp_offer_type dp of None \<Rightarrow> True | Some t \<Rightarrow> t \<notin> E)
      then dp # entries_outside E rest else entries_outside E rest)"
  by (simp add: entries_outside_def)

lemma snapshot_None:
  assumes "snapshot_of s off E ex"
  shows "ex t = None \<longleftrightarrow> t \<notin> E"
  using assms unfolding snapshot_of_def by (metis option.distinct(1))

lemma update_details_merge:
  assumes "details_consistent s" and "snapshot_of s off E ex" and "o_id inst = off"
    and "list_all (\<lambda>dp. kwargs_row dflt dp \<noteq> None) (entries_outside E dps)"
    and "distinct (map dd_offer_type (List.map_filter (kwargs_row dflt) (entries_outside E dps)))"
    and "\<forall>dd\<in>set (List.map_filter (kwargs_row dflt) (entries_outside E dps)).
           \<not> tier_taken s off (dd_offer_type dd)"
  shows "update_details s dflt inst ex dps =
     (Inr inst,
      s\<lparr>offer_details := map (merged_row off dps) (offer_details s) @
           detail_rows (next_offer_detail s) off
             (List.map_filter (kwargs_row dflt) (entries_outside E dps)),
        next_offer_detail := next_offer_detail s +
           int (length (List.map_filter (kwargs_row dflt) (entries_outside E dps)))\<rparr>)"
  using assms
proof (induction dps arbitrary: s ex)
  case Nil
  then show ?case by (simp add: entries_outside_def map_filter_simps)
next
  case (Cons dp rest)
  let ?news = "List.map_filter (kwargs_row dflt) (entries_outside E rest)"
  show ?case
  proof (cases "\<exists>t r0. dp_offer_type dp = Some t \<and> ex t = Some r0")
    case True
    then obtain t r0 where t: "dp_offer_type dp = Some t" and r0: "ex t = Some r0"
      by blast
    let ?det = "set_detail_attrs r0 dp"
    let ?s1 = "OfferDetail_save s ?det"
    note sn = save_snapshot [OF Cons.prems(2) Cons.prems(1) t r0]
    from t sn(4) have tp: "dp_offer_type dp = Some (d_offer_type r0)"
      by simp
    have out: "entries_outside E (dp # rest) = entries_outside E rest"
      using t sn(5) by (simp add: entries_outside_Cons)
    have c1: "details_consistent ?s1"
      using Cons.prems(1) sn(2) tp by (rule save_consistent)
    have f1: "\<forall>dd\<in>set ?news. \<not> tier_taken ?s1 off (dd_offer_type dd)"
      using Cons.prems(6) save_tier_taken [OF Cons.prems(1) sn(2) tp] by (simp add: out)
    have l1: "list_all (\<lambda>dp. kwargs_row dflt dp \<noteq> None) (entries_outside E rest)"
      using Cons.prems(4) by (simp only: out)
    have d1: "distinct (map dd_offer_type ?news)"
      using Cons.prems(5) by (simp only: out)
    have "update_details s dflt inst ex (dp # rest) =
        update_details ?s1 dflt inst (ex(t \<mapsto> ?det)) rest"
      using t r0 by (rule update_details_save_step)
    also have "\<dots> = (Inr inst,
        ?s1\<lparr>offer_details := map (merged_row off rest) (offer_details ?s1) @
             detail_rows (next_offer_detail ?s1) off ?news,
           next_offer_detail := next_offer_detail ?s1 + int (length ?news)\<rparr>)"
      using Cons.IH [OF c1 sn(1) Cons.prems(3) l1 d1 f1] .
    also have "map (merged_row off rest) (offer_details ?s1) =
        map (merged_row off (dp # rest)) (offer_details s)"
      using Cons.prems(1) sn(2,3) tp by (rule merged_rows_after_save)
    finally show ?thesis
      by (simp add: out)
  next
    case False
    then have none: "\<And>t. dp_offer_type dp = Some t \<Longrightarrow> ex t = None"
      by (cases "dp_offer_type dp") auto
    then have outE: "case dp_offer_type dp of None \<Rightarrow> True | Some t \<Rightarrow> t \<notin> E"
      using snapshot_None [OF Cons.prems(2)] by (auto split: option.splits)
    then have out: "entries_outside E (dp # rest) = dp # entries_outside E rest"
      by (simp add: entries_outside_Cons)
    from Cons.prems(4) obtain dd where dd: "kwargs_row dflt dp = Some dd"
      unfolding out by auto
    have news: "List.map_filter (kwargs_row dflt) (entries_outside E (dp # rest)) = dd # ?news"
      by (simp add: out map_filter_simps dd)
    from Cons.prems(6) have free: "\<not> tier_taken s off (dd_offer_type dd)"
      unfolding news by simp
    from Cons.prems(5) have d1: "distinct (map dd_offer_type ?news)"
      and fresh: "dd_offer_type dd \<notin> set (map dd_offer_type ?news)"
      unfolding news by simp_all
    let ?nd = "new_detail (next_offer_detail s) off dd"
    let ?s1 = "s\<lparr>offer_details := offer_details s @ [?nd],
      next_offer_detail := next_offer_detail s + 1\<rparr>"
    have c1: "details_consistent ?s1"
      using Cons.prems(1) free by (rule insert_consistent)
    have sn1: "snapshot_of ?s1 off E ex"
      using Cons.prems(2) by (rule insert_snapshot)
    have l1: "list_all (\<lambda>dp. kwargs_row dflt dp \<noteq> None) (entries_outside E rest)"
      using Cons.prems(4) unfolding out by simp
    have f1: "\<forall>x\<in>set ?news. \<not> tier_taken ?s1 off (dd_offer_type x)"
      using Cons.prems(6) fresh unfolding news tier_taken_after_insert
      by (auto simp: image_iff)
    have notE: "dd_offer_type dd \<notin> E"
    proof
      assume "dd_offer_type dd \<in> E"
      with Cons.prems(2) have "\<exists>r\<in>set (offer_details s). d_offer r = off \<and>
          d_offer_type r = dd_offer_type dd"
        unfolding snapshot_of_def by metis
      with free show False
        by (auto simp: tier_taken_iff)
    qed
    have later: "\<forall>x\<in>set rest. dp_offer_type x \<noteq> Some (dd_offer_type dd)"
    proof
      fix x
      assume x: "x \<in> set rest"
      show "dp_offer_type x \<noteq> Some (dd_offer_type dd)"
      proof
        assume tx: "dp_offer_type x = Some (dd_offer_type dd)"
        with notE x have xin: "x \<in> set (entries_outside E rest)"
          by (simp add: entries_outside_def)
        with l1 obtain y where y: "kwargs_row dflt x = Some y"
          by (auto simp: list_all_iff)
        with kwargs_row_tier [OF y] tx have "dd_offer_type y = dd_offer_type dd"
          by simp
        moreover from xin y have "y \<in> set ?news"
          by (rule in_map_filter)
        ultimately have "dd_offer_type dd \<in> dd_offer_type ` set ?news"
          by (metis imageI)
        with fresh show False
          by simp
      qed
    qed
    have "update_details s dflt inst ex (dp # rest) = update_details ?s1 dflt inst ex rest"
      using update_details_insert_step [of dp ex s dflt inst rest, OF none] dd free
        Cons.prems(3) by simp
    also have "\<dots> = (Inr inst,
        ?s1\<lparr>offer_details := map (merged_row off rest) (offer_details ?s1) @
             detail_rows (next_offer_detail ?s1) off ?news,
           next_offer_detail := next_offer_detail ?s1 + int (length ?news)\<rparr>)"
      using Cons.IH [OF c1 sn1 Cons.prems(3) l1 d1 f1] .
    also have "map (merged_row off rest) (offer_details ?s1) =
        map (merged_row off (dp # rest)) (offer_details s) @ [?nd]"
      using merged_rows_after_insert [OF free kwargs_row_tier [OF dd] later] by simp
    finally show ?thesis
      by (simp add: news)
  qed
qed

lemma update_details_fail:
  assumes "details_consistent s" and "snapshot_of s off E ex" and "o_id inst = off"
    and "\<not> (list_all (\<lambda>dp. kwargs_row dflt dp \<noteq> None) (entries_outside E dps) \<and>
            distinct (map dd_offer_type
              (List.map_filter (kwargs_row dflt) (entries_outside E dps))) \<and>
            (\<forall>dd\<in>set (List.map_filter (kwargs_row dflt) (entries_outside E dps)).
               \<not> tier_taken s off (dd_offer_type dd)))"
  shows "fst (update_details s dflt inst ex dps) = Inl (ValidationError ''Create Detail failed.'')"
  using assms
proof (induction dps arbitrary: s ex)
  case Nil
  then show ?case by (simp add: entries_outside_def map_filter_simps)
next
  case (Cons dp rest)
  let ?news = "List.map_filter (kwargs_row dflt) (entries_outside E rest)"
  show ?case
  proof (cases "\<exists>t r0. dp_offer_type dp = Some t \<and> ex t = Some r0")
    case True
    then obtain t r0 where t: "dp_offer_type dp = Some t" and r0: "ex t = Some r0"
      by blast
    let ?det = "set_detail_attrs r0 dp"
    let ?s1 = "OfferDetail_save s ?det"
    note sn = save_snapshot [OF Cons.prems(2) Cons.prems(1) t r0]
    from t sn(4) have tp: "dp_offer_type dp = Some (d_offer_type r0)"
      by simp
    have out: "entries_outside E (dp # rest) = entries_outside E rest"
      using t sn(5) by (simp add: entries_outside_Cons)
    have c1: "details_consistent ?s1"
      using Cons.prems(1) sn(2) tp by (rule save_consistent)
    have bad: "\<not> (list_all (\<lambda>dp. kwargs_row dflt dp \<noteq> None) (entries_outside E rest) \<and>
        distinct (map dd_offer_type ?news) \<and>
        (\<forall>dd\<in>set ?news. \<not> tier_taken ?s1 off (dd_offer_type dd)))"
      using Cons.prems(4) save_tier_taken [OF Cons.prems(1) sn(2) tp] by (simp add: out)
    have step: "update_details s dflt inst ex (dp # rest) =
        update_details ?s1 dflt inst (ex(t \<mapsto> ?det)) rest"
      using t r0 by (rule update_details_save_step)
    show ?thesis
      unfolding step by (rule Cons.IH [OF c1 sn(1) Cons.prems(3) bad])
  next
    case False
    then have none: "\<And>t. dp_offer_type dp = Some t \<Longrightarrow> ex t = None"
      by (cases "dp_offer_type dp") auto
    then have outE: "case dp_offer_type dp of None \<Rightarrow> True | Some t \<Rightarrow> t \<notin> E"
      using snapshot_None [OF Cons.prems(2)] by (auto split: option.splits)
    then have out: "entries_outside E (dp # rest) = dp # entries_outside E rest"
      by (simp add: entries_outside_Cons)
    note step = update_details_insert_step [of dp ex s dflt inst rest, OF none]
    show ?thesis
    proof (cases "kwargs_row dflt dp")
      case None
      then show ?thesis
        by (simp only: step option.case fst_conv)
    next
      case (Some dd)
      have news: "List.map_filter (kwargs_row dflt) (entries_outside E (dp # rest)) =
          dd # ?news"
        by (simp add: out map_filter_simps Some)
      show ?thesis
      proof (cases "tier_taken s off (dd_offer_type dd)")
        case True
        then show ?thesis
          by (simp only: step Some option.case Cons.prems(3) if_True fst_conv)
      next
        case False
        let ?nd = "new_detail (next_offer_detail s) off dd"
        let ?s1 = "s\<lparr>offer_details := offer_details s @ [?nd],
          next_offer_detail := next_offer_detail s + 1\<rparr>"
        have c1: "details_consistent ?s1"
          using Cons.prems(1) False by (rule insert_consistent)
        have sn1: "snapshot_of ?s1 off E ex"
          using Cons.prems(2) by (rule insert_snapshot)
        have bad: "\<not> (list_all (\<lambda>dp. kwargs_row dflt dp \<noteq> None) (entries_outside E rest) \<and>
            distinct (map dd_offer_type ?news) \<and>
            (\<forall>x\<in>set ?news. \<not> tier_taken ?s1 off (dd_offer_type x)))"
        proof
          assume good: "list_all (\<lambda>dp. kwargs_row dflt dp \<noteq> None) (entries_outside E rest) \<and>
            distinct (map dd_offer_type ?news) \<and>
            (\<forall>x\<in>set ?news. \<not> tier_taken ?s1 off (dd_offer_type x))"
          then have "\<forall>x\<in>set ?news. \<not> tier_taken s off (dd_offer_type x) \<and>
              dd_offer_type x \<noteq> dd_offer_type dd"
            unfolding tier_taken_after_insert by auto
          with good False Some have
            "list_all (\<lambda>dp. kwargs_row dflt dp \<noteq> None) (entries_outside E (dp # rest)) \<and>
             distinct (map dd_offer_type
               (List.map_filter (kwargs_row dflt) (entries_outside E (dp # rest)))) \<and>
             (\<forall>x\<in>set (List.map_filter (kwargs_row dflt) (entries_outside E (dp # rest))).
                \<not> tier_taken s off (dd_offer_type x))"
            unfolding news by (auto simp: out)
          with Cons.prems(4) show False by blast
        qed
        have "update_details s dflt inst ex (dp # rest) = update_details ?s1 dflt inst ex rest"
          using False by (simp only: step Some option.case Cons.prems(3) if_False)
        then show ?thesis
          using Cons.IH [OF c1 sn1 Cons.prems(3) bad] by (simp only:)
      qed
    qed
  qed
qed


lemma existing_details_snapshot:
  "snapshot_of s off (set (map d_offer_type (details_of s off))) (existing_details s off)"
proof -
  let ?ds = "details_of s off"
  let ?al = "rev (map (\<lambda>d. (d_offer_type d, d)) ?ds)"
  have "\<exists>r\<in>set (offer_details s). map_of ?al t = Some r \<and> d_offer r = off \<and> d_offer_type r = t"
    if "t \<in> set (map d_offer_type ?ds)" for t
  proof -
    from that have "t \<in> fst ` set ?al"
      by (force simp: image_iff)
    then obtain r where r: "map_of ?al t = Some r"
      using map_of_eq_None_iff [of ?al t] by fastforce
    then have "(t, r) \<in> set ?al"
      by (rule map_of_SomeD)
    then have "r \<in> set ?ds" "d_offer_type r = t"
      by auto
    with r show ?thesis
      by (auto simp: details_of_def)
  qed
  moreover have "map_of ?al t = None" if "t \<notin> set (map d_offer_type ?ds)" for t
    using that by (force simp: map_of_eq_None_iff image_iff)
  ultimately show ?thesis
    unfolding snapshot_of_def existing_details_def by auto
qed

lemma tier_taken_details_of:
  "tier_taken s off t \<longleftrightarrow> t \<in> set (map d_offer_type (details_of s off))"
  by (auto simp: tier_taken_iff details_of_def)

lemma entries_outside_tiers:
  "entries_outside (set (map d_offer_type (details_of s off))) dps = new_tier_details s off dps"
  by (simp add: entries_outside_def new_tier_details_def tier_taken_details_of
      cong: option.case_cong)

lemma Offer_save_details [simp]:
  "offer_details (Offer_save s i) = offer_details s"
  "next_offer_detail (Offer_save s i) = next_offer_detail s"
  "details_of (Offer_save s i) off = details_of s off"
  "tier_taken (Offer_save s i) off t = tier_taken s off t"
  "details_consistent (Offer_save s i) = details_consistent s"
  "new_tier_details (Offer_save s i) off dps = new_tier_details s off dps"
  "new_rows_data (Offer_save s i) dflt off dps = new_rows_data s dflt off dps"
  by (simp_all add: Offer_save_def details_of_def tier_taken_def details_consistent_def
      new_tier_details_def new_rows_data_def cong: option.case_cong)

lemma d_id_merged_row [simp]: "d_id (merged_row off dps r) = d_id r"
  by (induction dps arbitrary: r) (simp_all add: merged_row_Cons)

lemma merged_row_single:
  assumes "d_offer r = off"
    and "filter (\<lambda>x. dp_offer_type x = Some (d_offer_type r)) dps = [dp]"
  shows "merged_row off dps r = set_detail_attrs r dp"
  using assms by (simp add: merged_row_def)

lemma merged_row_untouched:
  assumes "d_offer r \<noteq> off \<or> Some (d_offer_type r) \<notin> dp_offer_type ` set dps"
  shows "merged_row off dps r = r"
proof (cases "d_offer r = off")
  case True
  with assms have "filter (\<lambda>x. dp_offer_type x = Some (d_offer_type r)) dps = []"
    by (auto simp: filter_empty_conv image_iff)
  then show ?thesis
    by (simp add: merged_row_def)
next
  case False
  then show ?thesis
    by (simp add: merged_row_def)
qed

lemma find_by_key_in_mapped:
  assumes "distinct (map d_id rows)" and "r \<in> set rows" and "\<And>x. d_id (f x) = d_id x"
  shows "find (\<lambda>x. d_id x = d_id r) (map f rows @ extra) = Some (f r)"
  using assms(1,2)
proof (induction rows)
  case Nil
  then show ?case by simp
next
  case (Cons a rows)
  show ?case
  proof (cases "d_id a = d_id r")
    case True
    with Cons.prems have "a = r"
      by (auto simp: image_iff)
    then show ?thesis
      by (simp add: assms(3))
  next
    case False
    with Cons show ?thesis
      by (auto simp: assms(3))
  qed
qed

lemma get_merged_row:
  assumes "details_consistent s" and "r \<in> set (offer_details s)"
  shows "OfferDetail_objects_get (merge_by_tier s dflt off dps) (d_id r) =
     Some (merged_row off dps r)"
  using assms find_by_key_in_mapped [of "offer_details s" r "merged_row off dps"]
  by (simp add: OfferDetail_objects_get_def merge_by_tier_def details_consistent_def)

lemma detail_rows_member:
  assumes "dd \<in> set dds"
  shows "\<exists>k\<ge>i. new_detail k off dd \<in> set (detail_rows i off dds)"
  using assms
proof (induction dds arbitrary: i)
  case Nil
  then show ?case by simp
next
  case (Cons a rest)
  show ?case
  proof (cases "dd = a")
    case True
    then show ?thesis
      by (intro exI [of _ i]) simp
  next
    case False
    with Cons.prems have "dd \<in> set rest" by simp
    from Cons.IH [OF this, of "i + 1"] obtain k where
      "i + 1 \<le> k" "new_detail k off dd \<in> set (detail_rows (i + 1) off rest)"
      by blast
    then show ?thesis
      by (intro exI [of _ k]) simp
  qed
qed

lemma OfferCreateSerializer_update_merge:
  assumes "details_consistent s" and "ou_details vd = Some dps"
  shows "insertable s dflt (o_id inst) dps \<Longrightarrow>
       OfferCreateSerializer_update s dflt inst vd =
         (Inr (set_offer_attrs inst vd),
          merge_by_tier (Offer_save s (set_offer_attrs inst vd)) dflt (o_id inst) dps)"
    and "\<not> insertable s dflt (o_id inst) dps \<Longrightarrow>
       fst (OfferCreateSerializer_update s dflt inst vd) =
         Inl (ValidationError ''Create Detail failed.'')"
proof -
  define inst' where "inst' = set_offer_attrs inst vd"
  define s1 where "s1 = Offer_save s inst'"
  define off where "off = o_id inst"
  define E where "E = set (map d_offer_type (details_of s1 off))"
  have oid: "o_id inst' = off"
    by (simp add: inst'_def off_def set_offer_attrs_def)
  have c1: "details_consistent s1"
    using assms(1) by (simp add: s1_def)
  have sn: "snapshot_of s1 off E (existing_details s1 off)"
    unfolding E_def by (rule existing_details_snapshot)
  have out: "entries_outside E dps = new_tier_details s off dps"
    unfolding E_def entries_outside_tiers by (simp add: s1_def)
  have news: "List.map_filter (kwargs_row dflt) (entries_outside E dps) =
      new_rows_data s dflt off dps"
    by (simp add: out new_rows_data_def)
  have taken: "tier_taken s1 off t = tier_taken s off t" for t
    by (simp add: s1_def)
  have upd: "OfferCreateSerializer_update s dflt inst vd =
      update_details s1 dflt inst' (existing_details s1 off) dps"
    using assms(2) by (simp add: OfferCreateSerializer_update_def Let_def s1_def oid
        flip: inst'_def)
  have ins: "insertable s dflt off dps \<longleftrightarrow>
      list_all (\<lambda>dp. kwargs_row dflt dp \<noteq> None) (entries_outside E dps) \<and>
      distinct (map dd_offer_type (List.map_filter (kwargs_row dflt) (entries_outside E dps))) \<and>
      (\<forall>dd\<in>set (List.map_filter (kwargs_row dflt) (entries_outside E dps)).
         \<not> tier_taken s1 off (dd_offer_type dd))"
    unfolding news taken by (simp add: insertable_def out list_all_iff)
  show "OfferCreateSerializer_update s dflt inst vd =
         (Inr (set_offer_attrs inst vd),
          merge_by_tier (Offer_save s (set_offer_attrs inst vd)) dflt (o_id inst) dps)"
    if "insertable s dflt (o_id inst) dps"
  proof -
    from that have g: "list_all (\<lambda>dp. kwargs_row dflt dp \<noteq> None) (entries_outside E dps)"
      "distinct (map dd_offer_type (List.map_filter (kwargs_row dflt) (entries_outside E dps)))"
      "\<forall>dd\<in>set (List.map_filter (kwargs_row dflt) (entries_outside E dps)).
         \<not> tier_taken s1 off (dd_offer_type dd)"
      unfolding off_def [symmetric] ins by blast+
    have "update_details s1 dflt inst' (existing_details s1 off) dps =
        (Inr inst', merge_by_tier s1 dflt off dps)"
      unfolding update_details_merge [OF c1 sn oid g] news merge_by_tier_def
      by (simp add: s1_def)
    then show ?thesis
      by (simp only: upd inst'_def s1_def off_def)
  qed
  show "fst (OfferCreateSerializer_update s dflt inst vd) =
         Inl (ValidationError ''Create Detail failed.'')"
    if "\<not> insertable s dflt (o_id inst) dps"
  proof -
    from that have "\<not> (list_all (\<lambda>dp. kwargs_row dflt dp \<noteq> None) (entries_outside E dps) \<and>
      distinct (map dd_offer_type (List.map_filter (kwargs_row dflt) (entries_outside E dps))) \<and>
      (\<forall>dd\<in>set (List.map_filter (kwargs_row dflt) (entries_outside E dps)).
         \<not> tier_taken s1 off (dd_offer_type dd)))"
      unfolding off_def [symmetric] ins .
    from update_details_fail [OF c1 sn oid this] show ?thesis
      by (simp only: upd)
  qed
qed

lemma OfferDetailView_update_owner:
  assumes "userprofile s usr = Some up"
    and "find (\<lambda>off. o_id off = i) (offers s) = Some inst"
    and "o_user_profile inst = p_id up"
  shows "OfferDetailView_update s dflt usr verb i vd = OfferCreateSerializer_update s dflt inst vd"
    and "o_id inst = i"
proof -
  from assms(2) show "o_id inst = i"
    by (auto simp: find_Some_iff)
  show "OfferDetailView_update s dflt usr verb i vd =
      OfferCreateSerializer_update s dflt inst vd"
    using assms userprofile_authenticated [OF assms(1)]
    by (simp add: OfferDetailView_update_def has_permission_def has_object_permission_def)
qed


text \<open>
  C6, as the claim states it, fails: a PATCH of offer 1 by its owner that submits two
  details of the tier premium, which the offer does not have, is answered with a
  validation error; the first of them has been inserted as row 3, the second has neither
  created a row nor updated one.
\<close>

theorem offer_update_repeated_new_tier_counterexample:
  "fst (OfferDetailView_update test_db no_defaults (Some user_business) PATCH 1
     \<lparr>ou_title = None, ou_description = None, ou_details = Some [premium_a, premium_b]\<rparr>) =
     Inl (ValidationError ''Create Detail failed.'') \<and>
   offer_details (snd (OfferDetailView_update test_db no_defaults (Some user_business) PATCH 1
     \<lparr>ou_title = None, ou_description = None, ou_details = Some [premium_a, premium_b]\<rparr>)) =
     [detail_basic, detail_standard,
      \<lparr>d_id = 3, d_offer = 1, d_title = ''Premium'', d_revisions = 5,
        d_delivery_time_in_days = 1, d_price = 200, d_features = [''a'', ''b'', ''c'', ''d''],
        d_offer_type = ''premium''\<rparr>]"
  by (simp add: OfferDetailView_update_def has_permission_def has_object_permission_def
      SAFE_METHODS_def is_authenticated_def userprofile_def
      OfferCreateSerializer_update_def set_offer_attrs_def Offer_save_def
      existing_details_def details_of_def OfferDetail_objects_create_kwargs_def kwargs_row_def
      or_default_def OfferDetail_objects_create_def tier_taken_def
      new_detail_def Let_def no_defaults_def premium_a_def premium_b_def fixture_defs)

text \<open>
  C6, amended. For every update (PUT or PATCH) of an offer by its owning profile that
  submits nested details, on a detail table that satisfies its constraints, matching is
  by tier, never by id. A submitted detail that names a tier the offer had when the
  update began updates that row in place (same key, same offer, same position), setting
  the attributes it submits; when several name the tier they are applied in order, and
  every row no submitted detail names is left as it is. A submitted detail that names no
  tier, or a tier the offer did not have, is inserted as a new row with a fresh key,
  completed by the defaults of the model. The update succeeds when every detail to
  insert gets a value for each column and the tiers of the details to insert are
  pairwise distinct and not taken; otherwise (the same new tier submitted twice, for
  one) it fails with a validation error.
\<close>

theorem offer_update_merges_by_tier:
  assumes "details_consistent s"
    and "userprofile s usr = Some up"
    and "find (\<lambda>off. o_id off = i) (offers s) = Some inst"
    and "o_user_profile inst = p_id up"
    and "verb = PUT \<or> verb = PATCH"
    and "ou_details vd = Some dps"
  shows "(insertable s dflt i dps \<longrightarrow>
       (\<exists>s'. OfferDetailView_update s dflt usr verb i vd =
               (Inr (set_offer_attrs inst vd), s') \<and>
          s' = merge_by_tier (Offer_save s (set_offer_attrs inst vd)) dflt i dps \<and>
          length (offer_details s') =
            length (offer_details s) + length (new_rows_data s dflt i dps) \<and>
          (\<forall>r\<in>set (offer_details s).
             OfferDetail_objects_get s' (d_id r) = Some (merged_row i dps r)) \<and>
          (\<forall>r\<in>set (offer_details s). \<forall>dp.
             d_offer r = i \<and>
             filter (\<lambda>x. dp_offer_type x = Some (d_offer_type r)) dps = [dp] \<longrightarrow>
             OfferDetail_objects_get s' (d_id r) = Some (set_detail_attrs r dp)) \<and>
          (\<forall>r\<in>set (offer_details s).
             d_offer r \<noteq> i \<or> Some (d_offer_type r) \<notin> dp_offer_type ` set dps \<longrightarrow>
             OfferDetail_objects_get s' (d_id r) = Some r) \<and>
          (\<forall>dd\<in>set (new_rows_data s dflt i dps).
             \<exists>k\<ge>next_offer_detail s. new_detail k i dd \<in> set (offer_details s')))) \<and>
     (\<not> insertable s dflt i dps \<longrightarrow>
        fst (OfferDetailView_update s dflt usr verb i vd) =
          Inl (ValidationError ''Create Detail failed.''))"
proof -
  note view = OfferDetailView_update_owner(1) [OF assms(2,3,4), of dflt verb vd]
  note oid = OfferDetailView_update_owner(2) [OF assms(2,3,4)]
  define s1 where "s1 = Offer_save s (set_offer_attrs inst vd)"
  define s' where "s' = merge_by_tier s1 dflt i dps"
  have c1: "details_consistent s1"
    using assms(1) by (simp add: s1_def)
  have good: "OfferDetailView_update s dflt usr verb i vd = (Inr (set_offer_attrs inst vd), s')"
    if "insertable s dflt i dps"
    using OfferCreateSerializer_update_merge(1) [OF assms(1,6), of dflt inst] that view oid
    by (simp add: s'_def s1_def)
  have bad: "fst (OfferDetailView_update s dflt usr verb i vd) =
      Inl (ValidationError ''Create Detail failed.'')" if "\<not> insertable s dflt i dps"
    using OfferCreateSerializer_update_merge(2) [OF assms(1,6), of dflt inst] that view oid
    by simp
  have len: "length (offer_details s') =
      length (offer_details s) + length (new_rows_data s dflt i dps)"
    by (simp add: s'_def merge_by_tier_def s1_def)
  have get: "OfferDetail_objects_get s' (d_id r) = Some (merged_row i dps r)"
    if "r \<in> set (offer_details s)" for r
    using get_merged_row [OF c1, of r dflt i dps] that by (simp add: s'_def s1_def)
  have single: "OfferDetail_objects_get s' (d_id r) = Some (set_detail_attrs r dp)"
    if "r \<in> set (offer_details s)" "d_offer r = i"
      "filter (\<lambda>x. dp_offer_type x = Some (d_offer_type r)) dps = [dp]" for r dp
    using get [OF that(1)] merged_row_single [OF that(2,3)] by simp
  have untouched: "OfferDetail_objects_get s' (d_id r) = Some r"
    if "r \<in> set (offer_details s)"
      "d_offer r \<noteq> i \<or> Some (d_offer_type r) \<notin> dp_offer_type ` set dps" for r
    using get [OF that(1)] merged_row_untouched [OF that(2)] by simp
  have fresh: "\<exists>k\<ge>next_offer_detail s. new_detail k i dd \<in> set (offer_details s')"
    if "dd \<in> set (new_rows_data s dflt i dps)" for dd
    using detail_rows_member [OF that, of "next_offer_detail s" i]
    by (auto simp: s'_def merge_by_tier_def s1_def)
  show ?thesis
    using good bad len get single untouched fresh
    unfolding s'_def s1_def by blast
qed

theorem offer_update_merges_by_tier_witness:
  "details_consistent test_db \<and>
   userprofile test_db (Some user_business) =
     Some \<lparr>p_id = 1, p_user = 1, p_type = ''business''\<rparr> \<and>
   find (\<lambda>off. o_id off = 1) (offers test_db) = Some offer_logo \<and>
   insertable test_db no_defaults 1 [basic_price, premium_a] \<and>
   OfferDetailView_update test_db no_defaults (Some user_business) PATCH 1
       \<lparr>ou_title = None, ou_description = None, ou_details = Some [basic_price, premium_a]\<rparr> =
     (Inr offer_logo,
      test_db\<lparr>offer_details :=
          [detail_basic\<lparr>d_price := 60\<rparr>, detail_standard,
           \<lparr>d_id = 3, d_offer = 1, d_title = ''Premium'', d_revisions = 5,
             d_delivery_time_in_days = 1, d_price = 200,
             d_features = [''a'', ''b'', ''c'', ''d''], d_offer_type = ''premium''\<rparr>],
        next_offer_detail := 4\<rparr>) \<and>
   \<not> insertable test_db no_defaults 1 [premium_a, premium_b] \<and>
   fst (OfferDetailView_update test_db no_defaults (Some user_business) PATCH 1
       \<lparr>ou_title = None, ou_description = None, ou_details = Some [premium_a, premium_b]\<rparr>) =
     Inl (ValidationError ''Create Detail failed.'')"
proof -
  let ?vd = "\<lparr>ou_title = None, ou_description = None,
    ou_details = Some [basic_price, premium_a]\<rparr>"
  let ?vd2 = "\<lparr>ou_title = None, ou_description = None,
    ou_details = Some [premium_a, premium_b]\<rparr>"
  let ?up = "\<lparr>p_id = 1, p_user = 1, p_type = ''business''\<rparr>"
  let ?prem = "\<lparr>dd_title = ''Premium'', dd_revisions = 5, dd_delivery_time_in_days = 1,
    dd_price = 200, dd_features = [''a'', ''b'', ''c'', ''d''], dd_offer_type = ''premium''\<rparr>"
  let ?prem2 = "\<lparr>dd_title = ''Premium plus'', dd_revisions = 9, dd_delivery_time_in_days = 1,
    dd_price = 300, dd_features = [''a''], dd_offer_type = ''premium''\<rparr>"
  have h1: "details_consistent test_db"
    by (simp add: details_consistent_def fixture_defs)
  have h2: "userprofile test_db (Some user_business) = Some ?up"
    by (simp add: userprofile_def fixture_defs)
  have h3: "find (\<lambda>off. o_id off = 1) (offers test_db) = Some offer_logo"
    by (simp add: offer_logo_def fixture_defs)
  have h4: "o_user_profile offer_logo = p_id ?up"
    by (simp add: offer_logo_def)
  have h5: "PATCH = PUT \<or> PATCH = PATCH"
    by simp
  have k: "kwargs_row no_defaults premium_a = Some ?prem"
    "kwargs_row no_defaults premium_b = Some ?prem2"
    by (simp_all add: kwargs_row_def or_default_def no_defaults_def premium_a_def premium_b_def)
  have tp: "dp_offer_type premium_a = Some ''premium''"
    "dp_offer_type premium_b = Some ''premium''"
    "dp_offer_type basic_price = Some ''basic''"
    by (simp_all add: premium_a_def premium_b_def basic_price_def)
  have tk: "\<not> tier_taken test_db 1 ''premium''" "tier_taken test_db 1 ''basic''"
    by (simp_all add: tier_taken_def fixture_defs)
  have n1: "new_tier_details test_db 1 [basic_price, premium_a] = [premium_a]"
    by (simp add: new_tier_details_def tp tk)
  have n2: "new_tier_details test_db 1 [premium_a, premium_b] = [premium_a, premium_b]"
    by (simp add: new_tier_details_def tp tk)
  have r1: "new_rows_data test_db no_defaults 1 [basic_price, premium_a] = [?prem]"
    by (simp add: new_rows_data_def n1 k)
  have r2: "new_rows_data test_db no_defaults 1 [premium_a, premium_b] = [?prem, ?prem2]"
    by (simp add: new_rows_data_def n2 k)
  have i1: "insertable test_db no_defaults 1 [basic_price, premium_a]"
    by (simp add: insertable_def n1 r1 k tk)
  have i2: "\<not> insertable test_db no_defaults 1 [premium_a, premium_b]"
    by (simp add: insertable_def n2 r2 k tk)
  have same: "set_offer_attrs offer_logo ?vd = offer_logo"
    "Offer_save test_db offer_logo = test_db"
    by (simp_all add: set_offer_attrs_def Offer_save_def offer_logo_def test_db_def)
  have m: "merge_by_tier test_db no_defaults 1 [basic_price, premium_a] =
      test_db\<lparr>offer_details :=
          [detail_basic\<lparr>d_price := 60\<rparr>, detail_standard,
           \<lparr>d_id = 3, d_offer = 1, d_title = ''Premium'', d_revisions = 5,
             d_delivery_time_in_days = 1, d_price = 200,
             d_features = [''a'', ''b'', ''c'', ''d''], d_offer_type = ''premium''\<rparr>],
        next_offer_detail := 4\<rparr>"
    unfolding merge_by_tier_def r1
    by (simp add: merged_row_def tp set_detail_attrs_def basic_price_def new_detail_def
        fixture_defs)
  from offer_update_merges_by_tier [OF h1 h2 h3 h4 h5, of ?vd "[basic_price, premium_a]"
      no_defaults] i1
  have 1: "OfferDetailView_update test_db no_defaults (Some user_business) PATCH 1 ?vd =
      (Inr offer_logo, merge_by_tier test_db no_defaults 1 [basic_price, premium_a])"
    by (simp add: same)
  from offer_update_merges_by_tier [OF h1 h2 h3 h4 h5, of ?vd2 "[premium_a, premium_b]"
      no_defaults] i2
  have 2: "fst (OfferDetailView_update test_db no_defaults (Some user_business) PATCH 1 ?vd2) =
      Inl (ValidationError ''Create Detail failed.'')"
    by simp
  from h1 h2 h3 i1 i2 1 2 show ?thesis
    by (simp only: m simp_thms)
qed

end
